theory Spec2Isabelle
  imports Complex_Main "HOL-Library.Multiset" "HOL-Library.Sublist"
    "HOL-Library.Char_ord" "HOL-Library.List_Lexorder"
begin

section \<open>Strings\<close>

text \<open>
  A JavaScript string is a sequence of code units. The model uses HOL strings, whose
  characters are the code units 0..255 (ASCII and Latin-1); \<open>length\<close> is the
  \<^verbatim>\<open>.length\<close> of the source. The character classes below are the ones the
  regular expressions of the source use, restricted to that range.
\<close>

definition code :: "char \<Rightarrow> nat" where
  "code c = of_char c"

text \<open>\<^verbatim>\<open>\s\<close>: tab, line feed, vertical tab, form feed, carriage return, space, no-break space.\<close>

definition isSpace :: "char \<Rightarrow> bool" where
  "isSpace c = ((9 \<le> code c \<and> code c \<le> 13) \<or> code c = 32 \<or> code c = 160)"

definition isDigit :: "char \<Rightarrow> bool" where
  "isDigit c = (48 \<le> code c \<and> code c \<le> 57)"

definition isUpper :: "char \<Rightarrow> bool" where
  "isUpper c = (65 \<le> code c \<and> code c \<le> 90)"

definition isLower :: "char \<Rightarrow> bool" where
  "isLower c = (97 \<le> code c \<and> code c \<le> 122)"

text \<open>\<^verbatim>\<open>\w\<close> is \<^verbatim>\<open>[A-Za-z0-9_]\<close>: the underscore (code 95) is a word character.\<close>

definition isWord :: "char \<Rightarrow> bool" where
  "isWord c = (isUpper c \<or> isLower c \<or> isDigit c \<or> code c = 95)"

text \<open>
  \<^verbatim>\<open>String.prototype.toLowerCase\<close> on the code units 0..255: the ASCII capitals and the
  Latin-1 capitals (192..222 without the multiplication sign 215) move up by 32.
\<close>

definition lowerChar :: "char \<Rightarrow> char" where
  "lowerChar c =
     (if isUpper c \<or> (192 \<le> code c \<and> code c \<le> 222 \<and> code c \<noteq> 215)
      then char_of (code c + 32) else c)"

definition toLowerCase :: "string \<Rightarrow> string" where
  "toLowerCase s = map lowerChar s"

text \<open>
  \<^verbatim>\<open>s.replace(/\s+/g, ' ')\<close>: every maximal run of white space becomes one space. The
  flag says whether the previous character belonged to a run already replaced.
\<close>

fun collapseFrom :: "bool \<Rightarrow> string \<Rightarrow> string" where
  "collapseFrom inRun [] = []"
| "collapseFrom inRun (c # cs) =
     (if isSpace c then (if inRun then collapseFrom True cs else CHR '' '' # collapseFrom True cs)
      else c # collapseFrom False cs)"

definition collapseWhitespace :: "string \<Rightarrow> string" where
  "collapseWhitespace s = collapseFrom False s"

text \<open>\<^verbatim>\<open>s.replace(/[^\w\s]/g, '')\<close>: only word characters and white space stay.\<close>

definition stripNonWord :: "string \<Rightarrow> string" where
  "stripNonWord s = filter (\<lambda>c. isWord c \<or> isSpace c) s"

text \<open>\<^verbatim>\<open>s.trim()\<close>: white space removed at both ends.\<close>

definition trim :: "string \<Rightarrow> string" where
  "trim s = rev (dropWhile isSpace (rev (dropWhile isSpace s)))"

text \<open>\<^verbatim>\<open>s.startsWith(t)\<close> and \<^verbatim>\<open>s.includes(t)\<close>.\<close>

fun startsWith :: "string \<Rightarrow> string \<Rightarrow> bool" where
  "startsWith s [] = True"
| "startsWith [] (y # ys) = False"
| "startsWith (x # xs) (y # ys) = (x = y \<and> startsWith xs ys)"

fun includesStr :: "string \<Rightarrow> string \<Rightarrow> bool" where
  "includesStr [] t = (t = [])"
| "includesStr (x # xs) t = (startsWith (x # xs) t \<or> includesStr xs t)"

section \<open>Title comparison (utils/soft404.ts)\<close>

text \<open>
  \<^verbatim>\<open>calculateSimilarity\<close> walks the indices \<open>0 .. length - 2\<close> of a string and reads
  \<^verbatim>\<open>substring(i, i + 2)\<close>.
\<close>

definition bigramsOf :: "string \<Rightarrow> string list" where
  "bigramsOf s = map (\<lambda>i. take 2 (drop i s)) [0 ..< length s - 1]"

text \<open>\<^verbatim>\<open>bigrams1.get(bigram) || 0\<close> on the \<^verbatim>\<open>Map<string, number>\<close>.\<close>

definition getCount :: "(string \<rightharpoonup> nat) \<Rightarrow> string \<Rightarrow> nat" where
  "getCount m b = (case m b of None \<Rightarrow> 0 | Some c \<Rightarrow> c)"

text \<open>The first loop: count the bigrams of \<open>s1\<close>.\<close>

fun countBigrams :: "(string \<rightharpoonup> nat) \<Rightarrow> string list \<Rightarrow> (string \<rightharpoonup> nat)" where
  "countBigrams m [] = m"
| "countBigrams m (b # bs) = countBigrams (m(b \<mapsto> getCount m b + 1)) bs"

text \<open>
  The second loop: every bigram of \<open>s2\<close> that still has a positive count uses one
  occurrence up and adds one to \<open>intersectionSize\<close>.
\<close>

fun intersectBigrams :: "(string \<rightharpoonup> nat) \<Rightarrow> nat \<Rightarrow> string list \<Rightarrow> nat" where
  "intersectBigrams m n [] = n"
| "intersectBigrams m n (b # bs) =
     (let count = getCount m b in
      if count > 0 then intersectBigrams (m(b \<mapsto> count - 1)) (n + 1) bs
      else intersectBigrams m n bs)"

text \<open>
  The similarity is a JavaScript number; the model computes it exactly, as a rational.
  The quotient of two integers below \<open>2^50\<close> compares with \<open>0.8\<close> in double precision as
  it does exactly.
\<close>

definition calculateSimilarity :: "string \<Rightarrow> string \<Rightarrow> rat" where
  "calculateSimilarity s1 s2 =
     (if s1 = s2 then 1
      else if length s1 < 2 \<or> length s2 < 2 then 0
      else
        let bigrams1 = countBigrams Map.empty (bigramsOf s1);
            intersectionSize = intersectBigrams bigrams1 0 (bigramsOf s2)
        in (2 * of_nat intersectionSize) / of_int (int (length s1) + int (length s2) - 2))"

text \<open>The local \<^verbatim>\<open>normalize\<close> of \<^verbatim>\<open>titlesMatch\<close>.\<close>

definition normalizeTitle :: "string \<Rightarrow> string" where
  "normalizeTitle title = trim (stripNonWord (collapseWhitespace (toLowerCase title)))"

text \<open>A title is \<^verbatim>\<open>string | null\<close>; \<^verbatim>\<open>!title\<close> holds for \<^verbatim>\<open>null\<close> and for the empty string.\<close>

definition falsy :: "string option \<Rightarrow> bool" where
  "falsy t = (case t of None \<Rightarrow> True | Some s \<Rightarrow> s = [])"

definition titlesMatch :: "string option \<Rightarrow> string option \<Rightarrow> bool" where
  "titlesMatch sourceTitle destTitle =
     (if falsy sourceTitle \<and> falsy destTitle then True
      else if falsy sourceTitle \<or> falsy destTitle then False
      else
        case (sourceTitle, destTitle) of
          (Some s, Some d) \<Rightarrow>
            let normalizedSource = normalizeTitle s; normalizedDest = normalizeTitle d in
            if normalizedSource = normalizedDest then True
            else if includesStr normalizedDest normalizedSource \<or> includesStr normalizedSource normalizedDest
              then True
            else calculateSimilarity normalizedSource normalizedDest > 8 / 10
        | _ \<Rightarrow> False)"

subsection \<open>The comparison as the specification words it\<close>



text \<open>
  The S\o rensen-Dice coefficient over character bigrams with multiset intersection:
  strings shorter than two characters have similarity 0 unless identical.
\<close>

definition dice :: "string \<Rightarrow> string \<Rightarrow> rat" where
  "dice a b =
     (if length a < 2 \<or> length b < 2 then (if a = b then 1 else 0)
      else (2 * of_nat (size (mset (bigramsOf a) \<inter># mset (bigramsOf b))))
             / (of_nat (length a) + of_nat (length b) - 2))"


text \<open>The map of the first loop represents a multiset of bigrams.\<close>

definition countsOf :: "(string \<rightharpoonup> nat) \<Rightarrow> string multiset \<Rightarrow> bool" where
  "countsOf m M = (\<forall>b. getCount m b = count M b)"


section \<open>Soft-404 detection (utils/soft404.ts)\<close>

subsection \<open>Regular expressions\<close>

text \<open>
  The patterns of the source are built from literal characters, \<^verbatim>\<open>.\<close>, \<^verbatim>\<open>\s\<close>, sequence,
  alternative, \<^verbatim>\<open>?\<close>, and \<^verbatim>\<open>*\<close> on a single character class. All carry the flag
  \<^verbatim>\<open>i\<close> and none the flag \<^verbatim>\<open>g\<close>, so \<^verbatim>\<open>test\<close> has no state.
\<close>

datatype atom = Lit char | Dot | Space

datatype regex = Eps | Atom atom | Star atom | Seq regex regex | Alt regex regex | Opt regex

text \<open>
  Under the flag \<^verbatim>\<open>i\<close> two characters match when their canonical (upper-case) forms
  agree. The literals of the patterns are ASCII, and no character above 127 has an ASCII
  canonical form. \<^verbatim>\<open>.\<close> matches everything but the line terminators.
\<close>

definition canonicalize :: "char \<Rightarrow> char" where
  "canonicalize c = (if isLower c then char_of (code c - 32) else c)"

fun atomMatches :: "atom \<Rightarrow> char \<Rightarrow> bool" where
  "atomMatches (Lit l) c = (canonicalize c = canonicalize l)"
| "atomMatches Dot c = (code c \<noteq> 10 \<and> code c \<noteq> 13)"
| "atomMatches Space c = isSpace c"

text \<open>
  \<open>rests r s\<close> lists what is left of \<open>s\<close> after each way of matching \<open>r\<close> at its
  start: the backtracking matcher tries them all, so a match exists when the list is not
  empty.
\<close>

fun starRests :: "atom \<Rightarrow> string \<Rightarrow> string list" where
  "starRests a [] = [[]]"
| "starRests a (c # cs) = (c # cs) # (if atomMatches a c then starRests a cs else [])"

fun rests :: "regex \<Rightarrow> string \<Rightarrow> string list" where
  "rests Eps s = [s]"
| "rests (Atom a) s = (case s of [] \<Rightarrow> [] | c # cs \<Rightarrow> if atomMatches a c then [cs] else [])"
| "rests (Star a) s = starRests a s"
| "rests (Seq r1 r2) s = concat (map (rests r2) (rests r1 s))"
| "rests (Alt r1 r2) s = rests r1 s @ rests r2 s"
| "rests (Opt r) s = rests r s @ [s]"

text \<open>\<^verbatim>\<open>pattern.test(s)\<close>: a match starting at some index of \<open>s\<close>.\<close>

fun testRe :: "regex \<Rightarrow> string \<Rightarrow> bool" where
  "testRe r [] = (rests r [] \<noteq> [])"
| "testRe r (c # cs) = (rests r (c # cs) \<noteq> [] \<or> testRe r cs)"

fun lits :: "string \<Rightarrow> regex" where
  "lits [] = Eps"
| "lits (c # cs) = Seq (Atom (Lit c)) (lits cs)"

fun seqs :: "regex list \<Rightarrow> regex" where
  "seqs [] = Eps"
| "seqs (r # rs) = Seq r (seqs rs)"

definition ws :: regex where
  "ws = Star Space"

definition apostrophe :: regex where
  "apostrophe = Atom (Lit (CHR 0x27))"

definition BODY_ERROR_PATTERNS :: "regex list" where
  "BODY_ERROR_PATTERNS =
    [seqs [lits ''page'', ws, lits ''not'', ws, lits ''found''],
     seqs [lits ''404'', ws, Opt (lits ''error'')],
     seqs [lits ''not'', ws, lits ''found''],
     seqs [lits ''doesn'', Opt apostrophe, lits ''t'', ws, lits ''exist''],
     seqs [lits ''does'', ws, lits ''not'', ws, lits ''exist''],
     seqs [lits ''no'', ws, lits ''longer'', ws,
           Alt (lits ''available'') (seqs [lits ''exist'', Opt (lits ''s'')])],
     seqs [lits ''cannot'', ws, lits ''be'', ws, lits ''found''],
     seqs [lits ''could'', ws, lits ''not'', ws, Opt (seqs [lits ''be'', ws]), lits ''found''],
     seqs [lits ''we'', ws, lits ''couldn'', Opt apostrophe, lits ''t'', ws, lits ''find''],
     seqs [lits ''page'', ws,
           Opt (seqs [lits ''you'', Opt (seqs [Opt apostrophe, lits ''re'']), ws,
                      Opt (seqs [lits ''looking'', ws, lits ''for'', ws])]),
           lits ''is'', ws, lits ''missing''],
     seqs [lits ''this'', ws, lits ''page'', ws,
           Opt (seqs [lits ''has'', ws, lits ''been'', ws]),
           Alt (lits ''moved'') (Alt (lits ''removed'') (lits ''deleted''))],
     lits ''oops'',
     seqs [lits ''sorry'', Star Dot, lits ''page''],
     seqs [lits ''nothing'', ws, Alt (lits ''here'') (lits ''found'')]]"

definition TITLE_ERROR_PATTERNS :: "regex list" where
  "TITLE_ERROR_PATTERNS =
    [lits ''404'',
     seqs [lits ''not'', ws, lits ''found''],
     seqs [lits ''page'', ws, lits ''not'', ws, lits ''found''],
     lits ''error'',
     lits ''missing'',
     lits ''oops'']"

definition MIN_CONTENT_LENGTH :: nat where
  "MIN_CONTENT_LENGTH = 500"

definition SOFT_404_THRESHOLD :: rat where
  "SOFT_404_THRESHOLD = 5 / 10"

subsection \<open>Text helpers\<close>

text \<open>A number inside a template literal: its decimal digits.\<close>

function showNat :: "nat \<Rightarrow> string" where
  "showNat n = (if n < 10 then [char_of (48 + n)] else showNat (n div 10) @ [char_of (48 + n mod 10)])"
  by pat_completeness auto
termination
  by (relation "measure id") auto

declare showNat.simps [simp del]

text \<open>
  \<^verbatim>\<open>body.replace(/<[^>]*>/g, '')\<close>: a \<^verbatim>\<open><\<close> with a \<^verbatim>\<open>>\<close> somewhere after it is removed
  together with everything up to and including the first such \<^verbatim>\<open>>\<close>; a \<^verbatim>\<open><\<close> that is
  never closed stays.
\<close>

function stripTags :: "string \<Rightarrow> string" where
  "stripTags [] = []"
| "stripTags (c # cs) =
     (if c = CHR ''<'' \<and> CHR ''>'' \<in> set cs
      then stripTags (tl (dropWhile (\<lambda>x. x \<noteq> CHR ''>'') cs))
      else c # stripTags cs)"
  by pat_completeness auto
termination
proof (relation "measure length")
  fix c :: char and cs :: string
  have "length (tl (dropWhile (\<lambda>x. x \<noteq> CHR ''>'') cs)) \<le> length cs"
    using length_dropWhile_le[of "\<lambda>x. x \<noteq> CHR ''>''" cs] by simp
  then show "(tl (dropWhile (\<lambda>x. x \<noteq> CHR ''>'') cs), c # cs) \<in> measure length"
    by simp
qed simp_all

text \<open>\<^verbatim>\<open>body.replace(/<[^>]*>/g, '').replace(/\s+/g, ' ').trim()\<close>.\<close>

definition textContentOf :: "string \<Rightarrow> string" where
  "textContentOf body = trim (collapseWhitespace (stripTags body))"

subsection \<open>checkSoft404\<close>

text \<open>The scores are JavaScript numbers; the model adds them exactly, as rationals.\<close>

record Soft404CheckResult =
  isSoft404 :: bool
  confidence :: rat
  reasons :: "string list"

text \<open>The loop over \<^verbatim>\<open>TITLE_ERROR_PATTERNS\<close>, which stops at the first pattern that matches.\<close>

fun titleLoop :: "regex list \<Rightarrow> string \<Rightarrow> rat \<times> string list \<Rightarrow> rat \<times> string list" where
  "titleLoop [] title (score, rs) = (score, rs)"
| "titleLoop (pattern # patterns) title (score, rs) =
     (if testRe pattern title
      then (score + 4 / 10,
            rs @ [''Title matches error pattern: '' @ [CHR 0x22] @ title @ [CHR 0x22]])
      else titleLoop patterns title (score, rs))"

text \<open>The loop over \<^verbatim>\<open>BODY_ERROR_PATTERNS\<close>, which counts every pattern that matches.\<close>

fun bodyLoop :: "regex list \<Rightarrow> string \<Rightarrow> nat \<times> string list \<Rightarrow> nat \<times> string list" where
  "bodyLoop [] bodyLower (bodyMatchCount, rs) = (bodyMatchCount, rs)"
| "bodyLoop (pattern # patterns) bodyLower (bodyMatchCount, rs) =
     (if testRe pattern bodyLower
      then bodyLoop patterns bodyLower
             (bodyMatchCount + 1,
              if bodyMatchCount + 1 = 1 then rs @ [''Body contains error indicator''] else rs)
      else bodyLoop patterns bodyLower (bodyMatchCount, rs))"

text \<open>
  The body of \<^verbatim>\<open>checkSoft404\<close> updates the two locals \<^verbatim>\<open>score\<close> and \<^verbatim>\<open>reasons\<close> in
  four steps; each step is a function on that pair.
\<close>

definition titleStep :: "string option \<Rightarrow> rat \<times> string list \<Rightarrow> rat \<times> string list" where
  "titleStep title st =
     (case title of
        None \<Rightarrow> st
      | Some t \<Rightarrow> if t = [] then st else titleLoop TITLE_ERROR_PATTERNS t st)"

definition bodyStep :: "string \<Rightarrow> rat \<times> string list \<Rightarrow> rat \<times> string list" where
  "bodyStep body st =
     (let bodyLower = toLowerCase body;
          (bodyMatchCount, rs) = bodyLoop BODY_ERROR_PATTERNS bodyLower (0, snd st)
      in if bodyMatchCount > 0
         then (fst st + min (3 / 10 + of_nat bodyMatchCount * (1 / 10)) (5 / 10), rs)
         else (fst st, rs))"

definition lengthStep :: "string \<Rightarrow> rat \<times> string list \<Rightarrow> rat \<times> string list" where
  "lengthStep body st =
     (let contentLength = length body in
      if contentLength < MIN_CONTENT_LENGTH
      then (fst st + 2 / 10,
            snd st @ [''Short content length: '' @ showNat contentLength @ '' chars''])
      else st)"

definition textStep :: "string \<Rightarrow> rat \<times> string list \<Rightarrow> rat \<times> string list" where
  "textStep body st =
     (let textContent = textContentOf body in
      if length textContent < 100
      then (fst st + 3 / 10,
            snd st @ [''Very little text content: '' @ showNat (length textContent) @ '' chars''])
      else st)"

definition checkSoft404 :: "string \<Rightarrow> string option \<Rightarrow> int \<Rightarrow> Soft404CheckResult" where
  "checkSoft404 body title statusCode =
     (if statusCode = 404 then \<lparr>isSoft404 = False, confidence = 0, reasons = []\<rparr>
      else if statusCode \<noteq> 200 then \<lparr>isSoft404 = False, confidence = 0, reasons = []\<rparr>
      else
        let (score, rs) = textStep body (lengthStep body (bodyStep body (titleStep title (0, []))));
            conf = min score 1
        in \<lparr>isSoft404 = (conf \<ge> SOFT_404_THRESHOLD), confidence = conf, reasons = rs\<rparr>)"

subsection \<open>The score as the specification words it\<close>





section \<open>Fetching (utils/http.ts)\<close>

record FetchResult =
  statusCode :: int
  body :: string
  finalUrl :: string
  wasRedirected :: bool
  responseTimeMs :: nat
  error :: "string option"

text \<open>
  The options of \<^verbatim>\<open>fetchUrl\<close> that decide its control flow; an absent option takes its
  default (\<^verbatim>\<open>timeout = 10000\<close>, \<^verbatim>\<open>retries = 2\<close>). \<^verbatim>\<open>followRedirects\<close> and
  \<^verbatim>\<open>headers\<close> only shape the request that the network answers.
\<close>

record FetchOptions =
  timeout :: "nat option"
  retries :: "int option"

text \<open>A thrown JavaScript \<^verbatim>\<open>Error\<close>: its \<^verbatim>\<open>name\<close> and its \<^verbatim>\<open>message\<close>.\<close>

datatype JsError = JsError (name: string) (message: string)

text \<open>
  What the network does with one attempt of \<^verbatim>\<open>fetchUrl\<close>: either \<^verbatim>\<open>fetch\<close> and
  \<^verbatim>\<open>response.text()\<close> succeed, giving the status, the body and \<^verbatim>\<open>response.url\<close>, or one
  of them throws. The abort of the \<^verbatim>\<open>AbortController\<close> by the timer shows as an error
  named \<^verbatim>\<open>AbortError\<close>. Each outcome carries the milliseconds the attempt took.
  The network is a function from the attempt number (from 1) to the outcome.
\<close>

datatype Attempt =
    Responded int string string nat
  | Threw JsError nat

text \<open>The effects of \<^verbatim>\<open>fetchUrl\<close>, in order: the requests and the calls of \<^verbatim>\<open>sleep\<close>.\<close>

datatype Effect = Request nat | Sleep nat

definition timeoutResult :: "string \<Rightarrow> nat \<Rightarrow> nat \<Rightarrow> FetchResult" where
  "timeoutResult u t ms =
     \<lparr>statusCode = 0, body = [], finalUrl = u, wasRedirected = False, responseTimeMs = ms,
      error = Some (''Request timeout after '' @ showNat t @ ''ms'')\<rparr>"

text \<open>\<^verbatim>\<open>lastError?.message || 'Unknown error'\<close>.\<close>

definition lastErrorMessage :: "JsError option \<Rightarrow> string" where
  "lastErrorMessage lastError =
     (case lastError of
        None \<Rightarrow> ''Unknown error''
      | Some e \<Rightarrow> if message e = [] then ''Unknown error'' else message e)"

definition exhaustedResult :: "string \<Rightarrow> JsError option \<Rightarrow> FetchResult" where
  "exhaustedResult u lastError =
     \<lparr>statusCode = 0, body = [], finalUrl = u, wasRedirected = False, responseTimeMs = 0,
      error = Some (lastErrorMessage lastError)\<rparr>"

definition responseResult :: "string \<Rightarrow> int \<Rightarrow> string \<Rightarrow> string \<Rightarrow> nat \<Rightarrow> FetchResult" where
  "responseResult u st txt responseUrl ms =
     (let final = (if responseUrl = [] then u else responseUrl) in
      \<lparr>statusCode = st, body = txt, finalUrl = final, wasRedirected = (final \<noteq> u),
       responseTimeMs = ms, error = None\<rparr>)"

text \<open>
  The \<^verbatim>\<open>while (attempt <= retries)\<close> loop of \<^verbatim>\<open>fetchUrl\<close>, with the locals
  \<^verbatim>\<open>attempt\<close> and \<^verbatim>\<open>lastError\<close> and the effects so far.
\<close>

function fetchLoop ::
  "string \<Rightarrow> nat \<Rightarrow> int \<Rightarrow> (nat \<Rightarrow> Attempt) \<Rightarrow> nat \<Rightarrow> JsError option \<Rightarrow> Effect list
    \<Rightarrow> FetchResult \<times> Effect list" where
  "fetchLoop u t r net attempt lastError trace =
     (if int attempt \<le> r then
        (case net (attempt + 1) of
           Responded st txt responseUrl ms \<Rightarrow>
             (responseResult u st txt responseUrl ms, trace @ [Request (attempt + 1)])
         | Threw e ms \<Rightarrow>
             if name e = ''AbortError''
             then (timeoutResult u t ms, trace @ [Request (attempt + 1)])
             else if int (attempt + 1) \<le> r
             then fetchLoop u t r net (attempt + 1) (Some e)
                    (trace @ [Request (attempt + 1), Sleep (min (1000 * (attempt + 1)) 3000)])
             else fetchLoop u t r net (attempt + 1) (Some e) (trace @ [Request (attempt + 1)]))
      else (exhaustedResult u lastError, trace))"
  by pat_completeness auto
termination
  by (relation "measure (\<lambda>(u, t, r, net, attempt, lastError, trace). nat (r + 1 - int attempt))") auto

declare fetchLoop.simps [simp del]

definition timeoutOf :: "FetchOptions \<Rightarrow> nat" where
  "timeoutOf options = (case timeout options of None \<Rightarrow> 10000 | Some v \<Rightarrow> v)"

definition retriesOf :: "FetchOptions \<Rightarrow> int" where
  "retriesOf options = (case retries options of None \<Rightarrow> 2 | Some v \<Rightarrow> v)"

definition fetchUrl :: "string \<Rightarrow> FetchOptions \<Rightarrow> (nat \<Rightarrow> Attempt) \<Rightarrow> FetchResult \<times> Effect list" where
  "fetchUrl u options net = fetchLoop u (timeoutOf options) (retriesOf options) net 0 None []"

definition isSuccessStatus :: "int \<Rightarrow> bool" where
  "isSuccessStatus st = (st \<ge> 200 \<and> st < 300)"

definition isServerErrorStatus :: "int \<Rightarrow> bool" where
  "isServerErrorStatus st = (st \<ge> 500 \<and> st < 600)"

subsection \<open>The rendering proxy\<close>

text \<open>
  The JSON envelope of FlareSolverr. The types of the source are unchecked casts of the
  parsed JSON, so the \<^verbatim>\<open>solution\<close> may be missing; reading a field of it then throws.
\<close>

record FlareSolverrSolution =
  sol_url :: string
  sol_status :: int
  sol_response :: string

record FlareSolverrResponse =
  fs_status :: string
  fs_message :: string
  solution :: "FlareSolverrSolution option"

text \<open>
  What the proxy does with the one request of \<^verbatim>\<open>fetchUrlWithFlareSolverr\<close>: the POST
  throws, or it answers with an HTTP status and a body that \<^verbatim>\<open>response.json()\<close> either
  rejects or parses.
\<close>

datatype FlareJson = JsonThrew JsError | JsonData FlareSolverrResponse

datatype FlareReply = PostThrew JsError | Replied int FlareJson

text \<open>The \<^verbatim>\<open>catch\<close> block: \<^verbatim>\<open>(error as Error).message || 'FlareSolverr request failed'\<close>.\<close>

definition flareCaught :: "string \<Rightarrow> nat \<Rightarrow> JsError \<Rightarrow> FetchResult" where
  "flareCaught u ms e =
     \<lparr>statusCode = 0, body = [], finalUrl = u, wasRedirected = False, responseTimeMs = ms,
      error = Some (if message e = [] then ''FlareSolverr request failed'' else message e)\<rparr>"

text \<open>A status inside a template literal; \<^verbatim>\<open>response.status\<close> is never negative.\<close>

definition showStatus :: "int \<Rightarrow> string" where
  "showStatus st = showNat (nat st)"

definition fetchUrlWithFlareSolverr :: "string \<Rightarrow> FlareReply \<Rightarrow> nat \<Rightarrow> FetchResult" where
  "fetchUrlWithFlareSolverr u reply ms =
     (case reply of
        PostThrew e \<Rightarrow> flareCaught u ms e
      | Replied st js \<Rightarrow>
          if \<not> (200 \<le> st \<and> st \<le> 299)
          then flareCaught u ms (JsError ''Error'' (''FlareSolverr HTTP error: '' @ showStatus st))
          else
            (case js of
               JsonThrew e \<Rightarrow> flareCaught u ms e
             | JsonData d \<Rightarrow>
                 if fs_status d \<noteq> ''ok''
                 then \<lparr>statusCode = 0, body = [], finalUrl = u, wasRedirected = False,
                       responseTimeMs = ms,
                       error = Some (''FlareSolverr error: '' @ fs_message d)\<rparr>
                 else
                   (case solution d of
                      None \<Rightarrow>
                        flareCaught u ms
                          (JsError ''TypeError'' ''Cannot read properties of undefined'')
                    | Some sol \<Rightarrow>
                        \<lparr>statusCode = sol_status sol, body = sol_response sol,
                         finalUrl = sol_url sol, wasRedirected = (sol_url sol \<noteq> u),
                         responseTimeMs = ms, error = None\<rparr>)))"

subsection \<open>Vocabulary for the retry policy\<close>

text \<open>A failure that \<^verbatim>\<open>fetchUrl\<close> retries: the attempt threw, and not an \<^verbatim>\<open>AbortError\<close>.\<close>

fun retryable :: "Attempt \<Rightarrow> bool" where
  "retryable (Threw e ms) = (name e \<noteq> ''AbortError'')"
| "retryable (Responded st txt responseUrl ms) = False"

fun timedOut :: "Attempt \<Rightarrow> bool" where
  "timedOut (Threw e ms) = (name e = ''AbortError'')"
| "timedOut (Responded st txt responseUrl ms) = False"

fun thrown :: "Attempt \<Rightarrow> JsError option" where
  "thrown (Threw e ms) = Some e"
| "thrown (Responded st txt responseUrl ms) = None"

text \<open>
  The effects of \<open>n\<close> attempts in a row, numbered from \<open>a + 1\<close>: a request, then between
  attempt \<open>k\<close> and the next one a sleep of \<open>min (1000 * k) 3000\<close> milliseconds, and
  nothing after the last request.
\<close>

definition backoffFrom :: "nat \<Rightarrow> nat \<Rightarrow> Effect list" where
  "backoffFrom a n =
     (if n = 0 then []
      else concat (map (\<lambda>k. [Request k, Sleep (min (1000 * k) 3000)]) [a + 1 ..< a + n])
           @ [Request (a + n)])"

text \<open>A network on which every attempt fails with an error whose message is empty.\<close>

definition silentFailure :: "nat \<Rightarrow> Attempt" where
  "silentFailure k = Threw (JsError ''Error'' []) 7"

text \<open>A network whose first attempt fails and whose second attempt times out.\<close>

definition failThenTimeout :: "nat \<Rightarrow> Attempt" where
  "failThenTimeout k =
     (if k = 1 then Threw (JsError ''TypeError'' ''fetch failed'') 12
      else Threw (JsError ''AbortError'' ''This operation was aborted'') 10000)"

text \<open>A network on which every attempt fails with the message \<^verbatim>\<open>fetch failed\<close>.\<close>

definition alwaysRefused :: "nat \<Rightarrow> Attempt" where
  "alwaysRefused k = Threw (JsError ''TypeError'' ''fetch failed'') 12"

text \<open>A network that redirects at once.\<close>

definition redirecting :: "nat \<Rightarrow> Attempt" where
  "redirecting k = Responded 200 ''<title>Moved</title>'' ''http://a.test/new'' 31"

text \<open>A proxy answer with a solution, and one without.\<close>

definition solvedReply :: FlareReply where
  "solvedReply =
     Replied 200 (JsonData \<lparr>fs_status = ''ok'', fs_message = [],
       solution = Some \<lparr>sol_url = ''http://a.test/'', sol_status = 200, sol_response = ''<p>x</p>''\<rparr>\<rparr>)"

definition brokenReply :: FlareReply where
  "brokenReply = Replied 200 (JsonData \<lparr>fs_status = ''ok'', fs_message = [], solution = None\<rparr>)"


section \<open>URLs\<close>

text \<open>
  The source parses and prints URLs with the platform's \<^verbatim>\<open>URL\<close> class. The model keeps
  the components the source reads and writes in a record, and takes the parser, the
  serialiser and the serialiser of query parameters as parameters: they are the platform's,
  not the repository's.
\<close>

record URLRecord =
  scheme :: string
  authority :: string
  hostname :: string
  opaquePath :: bool
  pathname :: string
  query :: "string option"
  searchParams :: "(string \<times> string) list"
  fragment :: "string option"

text \<open>
  \<open>parseURL s\<close> is \<^verbatim>\<open>new URL(s)\<close>, \<open>None\<close> when it throws; \<open>parseRelative s base\<close> is
  \<^verbatim>\<open>new URL(s, base)\<close>; \<open>href\<close> is the getter \<^verbatim>\<open>href\<close>; \<open>serializeParams\<close> is the
  \<^verbatim>\<open>application/x-www-form-urlencoded\<close> serialiser that \<^verbatim>\<open>searchParams\<close> uses to write the
  query back.
\<close>

record URLApi =
  parseURL :: "string \<Rightarrow> URLRecord option"
  parseRelative :: "string \<Rightarrow> string \<Rightarrow> URLRecord option"
  href :: "URLRecord \<Rightarrow> string"
  serializeParams :: "(string \<times> string) list \<Rightarrow> string"

definition newURL :: "URLApi \<Rightarrow> string \<Rightarrow> JsError + URLRecord" where
  "newURL api s =
     (case parseURL api s of
        None \<Rightarrow> Inl (JsError ''TypeError'' ''Invalid URL'')
      | Some parsed \<Rightarrow> Inr parsed)"

text \<open>\<^verbatim>\<open>s.endsWith(t)\<close>.\<close>

definition endsWith :: "string \<Rightarrow> string \<Rightarrow> bool" where
  "endsWith s t = startsWith (rev s) (rev t)"

text \<open>\<^verbatim>\<open>parsed.hash = ''\<close>: the URL has no fragment afterwards.\<close>

definition clearHash :: "URLRecord \<Rightarrow> URLRecord" where
  "clearHash parsed = parsed\<lparr>fragment := None\<rparr>"

text \<open>
  The setter of \<^verbatim>\<open>pathname\<close> does nothing on a URL with an opaque path. Otherwise it
  parses the new value as a path; the source only passes the current path without its last
  slash, which is in serialised form already, so the model stores the value.
\<close>

definition setPathname :: "URLRecord \<Rightarrow> string \<Rightarrow> URLRecord" where
  "setPathname parsed v = (if opaquePath parsed then parsed else parsed\<lparr>pathname := v\<rparr>)"

text \<open>
  \<^verbatim>\<open>parsed.searchParams.sort()\<close>: a stable sort of the name-value pairs by name, comparing
  code units, after which the query of the URL is the serialised list, or absent when that
  is empty.
\<close>

definition sortSearchParams :: "URLApi \<Rightarrow> URLRecord \<Rightarrow> URLRecord" where
  "sortSearchParams api parsed =
     (let sorted = sort_key fst (searchParams parsed);
          serialized = serializeParams api sorted
      in parsed\<lparr>searchParams := sorted,
                query := (if serialized = [] then None else Some serialized)\<rparr>)"

text \<open>The getter \<^verbatim>\<open>search\<close>: empty for an absent or empty query.\<close>

definition search :: "URLRecord \<Rightarrow> string" where
  "search parsed =
     (case query parsed of None \<Rightarrow> [] | Some q \<Rightarrow> if q = [] then [] else CHR ''?'' # q)"

subsection \<open>normalizeUrl (crawler.ts)\<close>

text \<open>The three updates of \<^verbatim>\<open>normalizeUrl\<close> on the parsed URL.\<close>

definition stripTrailingSlash :: "URLRecord \<Rightarrow> URLRecord" where
  "stripTrailingSlash parsed =
     (if pathname parsed \<noteq> ''/'' \<and> endsWith (pathname parsed) ''/''
      then setPathname parsed (butlast (pathname parsed))
      else parsed)"

definition normalizeRecord :: "URLApi \<Rightarrow> URLRecord \<Rightarrow> URLRecord" where
  "normalizeRecord api parsed = sortSearchParams api (stripTrailingSlash (clearHash parsed))"

text \<open>The \<^verbatim>\<open>try\<close> block: \<open>Inl\<close> is an exception leaving it.\<close>

definition normalizeUrlTry :: "URLApi \<Rightarrow> string \<Rightarrow> JsError + string" where
  "normalizeUrlTry api u =
     (case newURL api u of
        Inl e \<Rightarrow> Inl e
      | Inr parsed \<Rightarrow> Inr (href api (normalizeRecord api parsed)))"

text \<open>\<^verbatim>\<open>try { ... } catch { return url; }\<close>.\<close>

definition normalizeUrl :: "URLApi \<Rightarrow> string \<Rightarrow> string" where
  "normalizeUrl api u = (case normalizeUrlTry api u of Inl e \<Rightarrow> u | Inr h \<Rightarrow> h)"

subsection \<open>Helpers of utils/html-parser.ts\<close>

definition getUrlPath :: "URLApi \<Rightarrow> string \<Rightarrow> string" where
  "getUrlPath api u =
     (case newURL api u of Inl e \<Rightarrow> u | Inr parsed \<Rightarrow> pathname parsed @ search parsed)"

definition getDomain :: "URLApi \<Rightarrow> string \<Rightarrow> string" where
  "getDomain api u = (case newURL api u of Inl e \<Rightarrow> ''unknown'' | Inr parsed \<Rightarrow> hostname parsed)"

text \<open>
  \<^verbatim>\<open>joinUrl\<close>: \<^verbatim>\<open>new URL(path, baseUrl).href\<close>, and when that throws the base without a
  final slash, a slash unless the path starts with one, and the path.
\<close>

definition joinUrl :: "URLApi \<Rightarrow> string \<Rightarrow> string \<Rightarrow> string" where
  "joinUrl api baseUrl p =
     (case parseRelative api p baseUrl of
        Some parsed \<Rightarrow> href api parsed
      | None \<Rightarrow>
          (if endsWith baseUrl ''/'' then butlast baseUrl else baseUrl)
          @ (if startsWith p ''/'' then [] else ''/'') @ p)"

subsection \<open>A path whose normalisation is stable\<close>

text \<open>
  \<open>strippedPath\<close> is what \<open>stripTrailingSlash\<close> does to a path that is not opaque. A path
  is stable when stripping it twice gives what stripping it once gives: it is the root, it
  has no final slash, or it has exactly one (or it is \<^verbatim>\<open>//\<close>).
\<close>

definition strippedPath :: "string \<Rightarrow> string" where
  "strippedPath p = (if p \<noteq> ''/'' \<and> endsWith p ''/'' then butlast p else p)"

definition stablePath :: "URLRecord \<Rightarrow> bool" where
  "stablePath parsed =
     (opaquePath parsed \<or> strippedPath (strippedPath (pathname parsed)) = strippedPath (pathname parsed))"

subsection \<open>An instance of the URL interface for plain http URLs\<close>

text \<open>
  A small parser and serialiser for URLs written \<^verbatim>\<open>http://host/path?query#fragment\<close> (or
  \<^verbatim>\<open>https\<close>) with a host of lower-case letters and dots, and letters, digits, \<^verbatim>\<open>.\<close>,
  \<^verbatim>\<open>_\<close>, \<^verbatim>\<open>-\<close> and the delimiters elsewhere, and no \<^verbatim>\<open>.\<close> or \<^verbatim>\<open>..\<close> path segment. On
  these the platform's \<^verbatim>\<open>URL\<close> class changes nothing but an empty path, which becomes
  \<^verbatim>\<open>/\<close>. Every other string is rejected here, although the platform accepts many of
  them. The instance serves to evaluate the functions above on concrete URLs.
\<close>

fun splitAt :: "char \<Rightarrow> string \<Rightarrow> string \<times> string option" where
  "splitAt d [] = ([], None)"
| "splitAt d (c # cs) =
     (if c = d then ([], Some cs)
      else (case splitAt d cs of (before, rest) \<Rightarrow> (c # before, rest)))"

fun splitAll :: "char \<Rightarrow> string \<Rightarrow> string list" where
  "splitAll d [] = [[]]"
| "splitAll d (c # cs) =
     (if c = d then [] # splitAll d cs
      else (case splitAll d cs of piece # pieces \<Rightarrow> (c # piece) # pieces | [] \<Rightarrow> [[c]]))"

definition plainChar :: "char \<Rightarrow> bool" where
  "plainChar c = (isUpper c \<or> isLower c \<or> isDigit c \<or> c = CHR ''.'' \<or> c = CHR ''_'' \<or> c = CHR ''-'')"

definition plainHost :: "string \<Rightarrow> bool" where
  "plainHost h = (h \<noteq> [] \<and> list_all (\<lambda>c. isLower c \<or> c = CHR ''.'') h
     \<and> (case h of [] \<Rightarrow> False | c # cs \<Rightarrow> isLower c) \<and> isLower (last h))"

definition plainPath :: "string \<Rightarrow> bool" where
  "plainPath p =
     (list_all (\<lambda>c. plainChar c \<or> c = CHR ''/'') p
      \<and> list_all (\<lambda>seg. seg \<noteq> ''.'' \<and> seg \<noteq> ''..'') (splitAll CHR ''/'' p))"

definition plainQuery :: "string \<Rightarrow> bool" where
  "plainQuery q = list_all (\<lambda>c. plainChar c \<or> c = CHR ''&'' \<or> c = CHR ''='') q"

text \<open>The name-value pairs of a query: the non-empty pieces between \<^verbatim>\<open>&\<close>, split at the first \<^verbatim>\<open>=\<close>.\<close>

definition plainParams :: "string \<Rightarrow> (string \<times> string) list" where
  "plainParams q =
     map (\<lambda>piece. case splitAt CHR ''='' piece of (n, v) \<Rightarrow> (n, case v of None \<Rightarrow> [] | Some w \<Rightarrow> w))
       (filter (\<lambda>piece. piece \<noteq> []) (splitAll CHR ''&'' q))"

definition plainSerializeParams :: "(string \<times> string) list \<Rightarrow> string" where
  "plainSerializeParams ps =
     (case map (\<lambda>(n, v). n @ ''='' @ v) ps of
        [] \<Rightarrow> []
      | piece # pieces \<Rightarrow> piece @ concat (map (\<lambda>x. CHR ''&'' # x) pieces))"

definition plainParse :: "string \<Rightarrow> URLRecord option" where
  "plainParse s =
     (let (sch, rest0) =
            (if startsWith s ''http://'' then (''http'', Some (drop 7 s))
             else if startsWith s ''https://'' then (''https'', Some (drop 8 s))
             else ([], None))
      in case rest0 of
           None \<Rightarrow> None
         | Some rest \<Rightarrow>
             (let (beforeHash, frag) = splitAt CHR ''#'' rest;
                  (beforeQuery, q) = splitAt CHR ''?'' beforeHash;
                  host = takeWhile (\<lambda>c. c \<noteq> CHR ''/'') beforeQuery;
                  p = dropWhile (\<lambda>c. c \<noteq> CHR ''/'') beforeQuery
              in if plainHost host \<and> plainPath p
                    \<and> (case q of None \<Rightarrow> True | Some x \<Rightarrow> plainQuery x)
                    \<and> (case frag of None \<Rightarrow> True | Some x \<Rightarrow> list_all plainChar x)
                 then Some \<lparr>scheme = sch, authority = host, hostname = host, opaquePath = False,
                            pathname = (if p = [] then ''/'' else p), query = q,
                            searchParams = (case q of None \<Rightarrow> [] | Some x \<Rightarrow> plainParams x),
                            fragment = frag\<rparr>
                 else None))"

definition plainHref :: "URLRecord \<Rightarrow> string" where
  "plainHref parsed =
     scheme parsed @ ''://'' @ authority parsed @ pathname parsed
     @ (case query parsed of None \<Rightarrow> [] | Some q \<Rightarrow> CHR ''?'' # q)
     @ (case fragment parsed of None \<Rightarrow> [] | Some f \<Rightarrow> CHR ''#'' # f)"

text \<open>A path that starts with a slash replaces the path, query and fragment of the base.\<close>

definition plainParseRelative :: "string \<Rightarrow> string \<Rightarrow> URLRecord option" where
  "plainParseRelative s base =
     (case plainParse base of
        None \<Rightarrow> None
      | Some b \<Rightarrow>
          if startsWith s ''/'' \<and> \<not> startsWith s ''//''
          then plainParse (scheme b @ ''://'' @ authority b @ s)
          else plainParse s)"

definition plainApi :: URLApi where
  "plainApi = \<lparr>parseURL = plainParse, parseRelative = plainParseRelative, href = plainHref,
     serializeParams = plainSerializeParams\<rparr>"


section \<open>Validation (validator.ts)\<close>

text \<open>
  The world outside one validation or crawl: the URL class, the network (for every URL the
  outcome of each attempt), what the HTML library reads from a document (the text of the
  first \<^verbatim>\<open>title\<close> element, the text of \<^verbatim>\<open>body\<close> without scripts and styles, the
  \<^verbatim>\<open>href\<close> attributes of the anchors in document order), the answer of the rendering
  proxy, and the clock (the milliseconds a call for a URL took).
\<close>

record World =
  urlApi :: URLApi
  network :: "string \<Rightarrow> nat \<Rightarrow> Attempt"
  titleText :: "string \<Rightarrow> string"
  bodyTextOf :: "string \<Rightarrow> string"
  anchorsOf :: "string \<Rightarrow> string list"
  proxy :: "string \<Rightarrow> FlareReply"
  elapsedMs :: "string \<Rightarrow> nat"

text \<open>\<^verbatim>\<open>extractTitle\<close> and \<^verbatim>\<open>extractBodyText\<close> of utils/html-parser.ts.\<close>

definition extractTitle :: "World \<Rightarrow> string \<Rightarrow> string option" where
  "extractTitle w html = (let t = trim (titleText w html) in if t = [] then None else Some t)"

definition extractBodyText :: "World \<Rightarrow> string \<Rightarrow> string" where
  "extractBodyText w html = trim (collapseWhitespace (bodyTextOf w html))"

datatype IssueType = NotFound | Soft404 | ServerError | TitleMismatch | Redirect | Timeout | ErrorIssue

record ValidationIssue =
  issueType :: IssueType
  issueMessage :: string
  details :: "(string \<times> string list) list"

datatype Status = StatusOk | StatusWarning | StatusError

record ValidationResult =
  sourcePath :: string
  sourceTitle :: "string option"
  destinationUrl :: string
  destinationStatusCode :: "int option"
  destinationTitle :: "string option"
  status :: Status
  issues :: "ValidationIssue list"
  resultTimeMs :: "nat option"

text \<open>\<^verbatim>\<open>status = status === 'ok' ? 'warning' : status\<close>.\<close>

definition escalate :: "Status \<Rightarrow> Status" where
  "escalate s = (if s = StatusOk then StatusWarning else s)"

text \<open>
  After the fetch \<^verbatim>\<open>validateUrl\<close> updates the locals \<^verbatim>\<open>status\<close> and \<^verbatim>\<open>issues\<close> in five
  checks; each is a function on that pair.
\<close>

definition notFoundCheck :: "FetchResult \<Rightarrow> Status \<times> ValidationIssue list \<Rightarrow> Status \<times> ValidationIssue list" where
  "notFoundCheck res st =
     (if statusCode res = 404
      then (StatusError,
            snd st @ [\<lparr>issueType = NotFound, issueMessage = ''404 Not Found'', details = []\<rparr>])
      else st)"

definition serverErrorCheck :: "FetchResult \<Rightarrow> Status \<times> ValidationIssue list \<Rightarrow> Status \<times> ValidationIssue list" where
  "serverErrorCheck res st =
     (if isServerErrorStatus (statusCode res)
      then (StatusError,
            snd st @ [\<lparr>issueType = ServerError,
                       issueMessage = ''Server error: '' @ showStatus (statusCode res),
                       details = []\<rparr>])
      else st)"

text \<open>
  The redirect check builds \<^verbatim>\<open>new URL(destUrl)\<close> and \<^verbatim>\<open>new URL(result.finalUrl)\<close> outside
  any \<^verbatim>\<open>try\<close>: an exception there leaves \<^verbatim>\<open>validateUrl\<close>.
\<close>

definition redirectCheck ::
  "URLApi \<Rightarrow> string \<Rightarrow> FetchResult \<Rightarrow> Status \<times> ValidationIssue list
    \<Rightarrow> JsError + Status \<times> ValidationIssue list" where
  "redirectCheck api destUrl res st =
     (if wasRedirected res then
        (case newURL api destUrl of
           Inl e \<Rightarrow> Inl e
         | Inr originalUrl \<Rightarrow>
             (case newURL api (finalUrl res) of
                Inl e \<Rightarrow> Inl e
              | Inr final \<Rightarrow>
                  if pathname originalUrl \<noteq> pathname final
                  then Inr (escalate (fst st),
                            snd st @ [\<lparr>issueType = Redirect,
                                       issueMessage = ''Redirected to: '' @ pathname final,
                                       details = [(''finalUrl'', [finalUrl res])]\<rparr>])
                  else Inr st))
      else Inr st)"

text \<open>\<^verbatim>\<open>Math.round(confidence * 100)\<close>.\<close>

definition percent :: "rat \<Rightarrow> nat" where
  "percent c = nat \<lfloor>c * 100 + 1 / 2\<rfloor>"

definition soft404Check ::
  "FetchResult \<Rightarrow> string \<Rightarrow> string option \<Rightarrow> Status \<times> ValidationIssue list
    \<Rightarrow> Status \<times> ValidationIssue list" where
  "soft404Check res bodyText destTitle st =
     (if isSuccessStatus (statusCode res) then
        (let check = checkSoft404 bodyText destTitle (statusCode res) in
         if isSoft404 check
         then (StatusError,
               snd st @ [\<lparr>issueType = Soft404,
                          issueMessage = ''Soft 404 detected ('' @ showNat (percent (confidence check))
                                          @ ''% confidence)'',
                          details = [(''reasons'', reasons check)]\<rparr>])
         else st)
      else st)"

definition titleCheck ::
  "string option \<Rightarrow> string option \<Rightarrow> Status \<times> ValidationIssue list
    \<Rightarrow> Status \<times> ValidationIssue list" where
  "titleCheck srcTitle destTitle st =
     (if \<not> falsy srcTitle \<and> \<not> falsy destTitle \<and> fst st \<noteq> StatusError then
        (if \<not> titlesMatch srcTitle destTitle
         then (escalate (fst st),
               snd st @ [\<lparr>issueType = TitleMismatch,
                          issueMessage =
                            ''Title mismatch: '' @ [CHR 0x22] @ (case srcTitle of Some x \<Rightarrow> x | None \<Rightarrow> [])
                            @ [CHR 0x22] @ '' vs '' @ [CHR 0x22]
                            @ (case destTitle of Some x \<Rightarrow> x | None \<Rightarrow> []) @ [CHR 0x22],
                          details =
                            [(''sourceTitle'', (case srcTitle of Some x \<Rightarrow> [x] | None \<Rightarrow> [])),
                             (''destinationTitle'', (case destTitle of Some x \<Rightarrow> [x] | None \<Rightarrow> []))]\<rparr>])
         else st)
      else st)"

text \<open>
  \<^verbatim>\<open>validateUrl\<close>; \<open>Inl\<close> is an exception leaving it. \<^verbatim>\<open>if (result.error)\<close> holds for a
  message that is not empty.
\<close>

definition validateUrl ::
  "World \<Rightarrow> string \<Rightarrow> string option \<Rightarrow> string \<Rightarrow> nat \<Rightarrow> JsError + ValidationResult" where
  "validateUrl w p srcTitle destBase t =
     (let destUrl = joinUrl (urlApi w) destBase p;
          res = fst (fetchUrl destUrl \<lparr>timeout = Some t, retries = Some 1\<rparr> (network w destUrl));
          ms = elapsedMs w destUrl
      in if \<not> falsy (error res) then
           Inr \<lparr>sourcePath = p, sourceTitle = srcTitle, destinationUrl = destUrl,
                destinationStatusCode = None, destinationTitle = None, status = StatusError,
                issues = [\<lparr>issueType = ErrorIssue,
                           issueMessage = (case error res of Some m \<Rightarrow> m | None \<Rightarrow> []),
                           details = []\<rparr>],
                resultTimeMs = Some ms\<rparr>
         else
           (case redirectCheck (urlApi w) destUrl res
                   (serverErrorCheck res (notFoundCheck res (StatusOk, []))) of
              Inl e \<Rightarrow> Inl e
            | Inr st3 \<Rightarrow>
                (let destTitle = extractTitle w (body res);
                     bodyText = extractBodyText w (body res);
                     st5 = titleCheck srcTitle destTitle (soft404Check res bodyText destTitle st3)
                 in Inr \<lparr>sourcePath = p, sourceTitle = srcTitle, destinationUrl = destUrl,
                         destinationStatusCode = Some (statusCode res),
                         destinationTitle = destTitle, status = fst st5, issues = snd st5,
                         resultTimeMs = Some ms\<rparr>)))"

subsection \<open>The configuration and the call from validate\<close>

datatype RedirectHandling = RedirectOk | RedirectWarning

record ValidatorConfig =
  inputPath :: string
  v_destinationUrl :: string
  v_concurrency :: int
  v_timeout :: nat
  v_outputPath :: string
  v_verbose :: bool
  redirectHandling :: RedirectHandling

text \<open>
  The configuration that the \<^verbatim>\<open>validate\<close> command of index.ts builds from its options,
  the numbers parsed already.
\<close>

definition validatorConfig ::
  "string \<Rightarrow> string \<Rightarrow> int \<Rightarrow> nat \<Rightarrow> string \<Rightarrow> bool \<Rightarrow> bool \<Rightarrow> ValidatorConfig" where
  "validatorConfig input destination conc t output verb redirectsOk =
     \<lparr>inputPath = input, v_destinationUrl = destination, v_concurrency = conc, v_timeout = t,
      v_outputPath = output, v_verbose = verb,
      redirectHandling = (if redirectsOk then RedirectOk else RedirectWarning)\<rparr>"

record CrawledUrl =
  url :: string
  path :: string
  title :: "string option"
  cu_statusCode :: int
  depth :: nat
  discoveredFrom :: "string option"

text \<open>The task that \<^verbatim>\<open>validate\<close> runs for each crawled URL.\<close>

definition validateCrawled :: "World \<Rightarrow> ValidatorConfig \<Rightarrow> CrawledUrl \<Rightarrow> JsError + ValidationResult" where
  "validateCrawled w config crawledUrl =
     validateUrl w (path crawledUrl) (title crawledUrl) (v_destinationUrl config) (v_timeout config)"

text \<open>
  Three worlds: one whose network answers every request from another path, one whose
  network answers with the page asked for, and one whose network refuses every request.
\<close>

definition movedWorld :: World where
  "movedWorld =
     \<lparr>urlApi = plainApi,
      network = (\<lambda>u k. Responded 403 ''page'' ''https://new.test/moved'' 20),
      titleText = (\<lambda>html. ''Foo - Bar''),
      bodyTextOf = (\<lambda>html. ''Forbidden''),
      anchorsOf = (\<lambda>html. []),
      proxy = (\<lambda>u. PostThrew (JsError ''Error'' ''no proxy'')),
      elapsedMs = (\<lambda>u. 25)\<rparr>"

definition plainWorld :: World where
  "plainWorld =
     \<lparr>urlApi = plainApi,
      network = (\<lambda>u k. Responded 204 ''page'' u 20),
      titleText = (\<lambda>html. '' Foo - Bar ''),
      bodyTextOf = (\<lambda>html. []),
      anchorsOf = (\<lambda>html. []),
      proxy = (\<lambda>u. PostThrew (JsError ''Error'' ''no proxy'')),
      elapsedMs = (\<lambda>u. 25)\<rparr>"

definition deadWorld :: World where
  "deadWorld =
     \<lparr>urlApi = plainApi,
      network = (\<lambda>u. alwaysRefused),
      titleText = (\<lambda>html. []),
      bodyTextOf = (\<lambda>html. []),
      anchorsOf = (\<lambda>html. []),
      proxy = (\<lambda>u. PostThrew (JsError ''Error'' ''no proxy'')),
      elapsedMs = (\<lambda>u. 25)\<rparr>"

definition fooPage :: CrawledUrl where
  "fooPage = \<lparr>url = ''https://old.test/x'', path = ''/x'', title = Some ''Foo'',
     cu_statusCode = 200, depth = 1, discoveredFrom = Some ''https://old.test/''\<rparr>"

definition exampleConfig :: "bool \<Rightarrow> ValidatorConfig" where
  "exampleConfig redirectsOk =
     validatorConfig ''crawl.json'' ''https://new.test'' 5 10000 ''report.json'' False redirectsOk"


subsection \<open>Properties of the title comparison\<close>



lemma countsOf_add: "countsOf m M \<Longrightarrow> countsOf (m(b \<mapsto> getCount m b + 1)) (add_mset b M)"
  by (simp add: countsOf_def getCount_def)

lemma countsOf_del: "countsOf m M \<Longrightarrow> countsOf (m(b \<mapsto> getCount m b - 1)) (M - {#b#})"
  by (simp add: countsOf_def getCount_def)

lemma countBigrams_counts:
  "countsOf m M \<Longrightarrow> countsOf (countBigrams m bs) (M + mset bs)"
proof (induction bs arbitrary: m M)
  case Nil
  then show ?case by simp
next
  case (Cons b bs)
  have "countsOf (countBigrams (m(b \<mapsto> getCount m b + 1)) bs) (add_mset b M + mset bs)"
    by (rule Cons.IH[OF countsOf_add[OF Cons.prems]])
  then show ?case
    by (simp only: countBigrams.simps mset.simps union_mset_add_mset_left
        union_mset_add_mset_right)
qed

lemma intersectBigrams_size:
  "countsOf m M \<Longrightarrow> intersectBigrams m n bs = n + size (M \<inter># mset bs)"
proof (induction bs arbitrary: m M n)
  case Nil
  then show ?case by simp
next
  case (Cons b bs)
  show ?case
  proof (cases "getCount m b > 0")
    case True
    then have inM: "b \<in># M" using Cons.prems by (simp add: countsOf_def)
    have step: "intersectBigrams m n (b # bs)
        = intersectBigrams (m(b \<mapsto> getCount m b - 1)) (n + 1) bs"
      using True by (simp add: Let_def)
    have "intersectBigrams (m(b \<mapsto> getCount m b - 1)) (n + 1) bs
        = (n + 1) + size ((M - {#b#}) \<inter># mset bs)"
      by (rule Cons.IH[OF countsOf_del[OF Cons.prems]])
    moreover have "M \<inter># mset (b # bs) = add_mset b ((M - {#b#}) \<inter># mset bs)"
      using inM by (simp add: inter_add_right2)
    ultimately show ?thesis using step by simp
  next
    case False
    then have notin: "\<not> b \<in># M" using Cons.prems by (simp add: countsOf_def not_in_iff)
    have step: "intersectBigrams m n (b # bs) = intersectBigrams m n bs"
      using False by (simp add: Let_def)
    have "M \<inter># mset (b # bs) = M \<inter># mset bs"
      using notin by (simp add: inter_add_right1)
    with Cons.IH[OF Cons.prems, of n] step show ?thesis by simp
  qed
qed

lemma intersection_size:
  "intersectBigrams (countBigrams Map.empty bs1) 0 bs2 = size (mset bs1 \<inter># mset bs2)"
proof -
  have "countsOf Map.empty {#}" by (simp add: countsOf_def getCount_def)
  from countBigrams_counts[OF this, of bs1]
  have "countsOf (countBigrams Map.empty bs1) (mset bs1)" by simp
  from intersectBigrams_size[OF this] show ?thesis by simp
qed

lemma inter_mset_commute: "A \<inter># B = B \<inter># A"
  by (simp add: multiset_eq_iff min.commute)

lemma calculateSimilarity_dice: "calculateSimilarity s1 s2 = dice s1 s2"
proof (cases "s1 = s2")
  case False
  then show ?thesis
    by (simp add: calculateSimilarity_def dice_def intersection_size Let_def)
next
  case True
  show ?thesis
  proof (cases "length s1 < 2")
    case True
    with \<open>s1 = s2\<close> show ?thesis by (simp add: calculateSimilarity_def dice_def)
  next
    case False
    then obtain n where n: "length s1 = Suc (Suc n)"
      by (metis Suc_lessI less_2_cases_iff not_less_eq not0_implies_Suc numeral_2_eq_2 not_less
          less_Suc_eq_0_disj)
    have "size (mset (bigramsOf s1)) = Suc n" by (simp add: bigramsOf_def n)
    then show ?thesis using False \<open>s1 = s2\<close> n
      by (simp add: calculateSimilarity_def dice_def)
  qed
qed

lemma dice_commute: "dice a b = dice b a"
  by (auto simp: dice_def inter_mset_commute[of "mset (bigramsOf a)"] add.commute)




text \<open>
  Claim C9: \<open>titlesMatch\<close> is symmetric in its two titles, and so is
  \<open>calculateSimilarity\<close>, although it builds the bigram map from its first argument only:
  the count it returns is the size of the multiset intersection of the two bigram lists.
\<close>

theorem titlesMatch_symmetric:
  "titlesMatch a b = titlesMatch b a \<and> calculateSimilarity s1 s2 = calculateSimilarity s2 s1"
proof
  have sim: "\<And>x y. calculateSimilarity x y = calculateSimilarity y x"
    by (simp add: calculateSimilarity_dice dice_commute)
  show "calculateSimilarity s1 s2 = calculateSimilarity s2 s1" by (rule sim)
  show "titlesMatch a b = titlesMatch b a"
    by (cases a; cases b) (auto simp: titlesMatch_def Let_def sim falsy_def)
qed

theorem titlesMatch_symmetric_witness:
  "titlesMatch (Some ''Home page'') (Some ''Home pages!'') = titlesMatch (Some ''Home pages!'') (Some ''Home page'')
   \<and> calculateSimilarity ''night'' ''nacht'' = calculateSimilarity ''nacht'' ''night''
   \<and> calculateSimilarity ''night'' ''nacht'' = 1 / 4"
proof -
  have "calculateSimilarity ''night'' ''nacht'' = 1 / 4" by code_simp
  with titlesMatch_symmetric[of "Some ''Home page''" "Some ''Home pages!''" "''night''" "''nacht''"]
  show ?thesis by simp
qed


subsection \<open>Properties of the soft-404 score\<close>











subsection \<open>Properties of the fetch strategies\<close>

lemma fetchLoop_done:
  "\<not> int a \<le> r \<Longrightarrow> fetchLoop u t r net a le tr = (exhaustedResult u le, tr)"
  by (subst fetchLoop.simps) simp

lemma fetchLoop_responded:
  "int a \<le> r \<Longrightarrow> net (Suc a) = Responded st tx ru ms \<Longrightarrow>
   fetchLoop u t r net a le tr = (responseResult u st tx ru ms, tr @ [Request (Suc a)])"
  by (subst fetchLoop.simps) simp

lemma fetchLoop_timeout:
  "int a \<le> r \<Longrightarrow> net (Suc a) = Threw e ms \<Longrightarrow> name e = ''AbortError'' \<Longrightarrow>
   fetchLoop u t r net a le tr = (timeoutResult u t ms, tr @ [Request (Suc a)])"
  by (subst fetchLoop.simps) simp

lemma fetchLoop_retry:
  "int (Suc a) \<le> r \<Longrightarrow> net (Suc a) = Threw e ms \<Longrightarrow> name e \<noteq> ''AbortError'' \<Longrightarrow>
   fetchLoop u t r net a le tr
     = fetchLoop u t r net (Suc a) (Some e)
         (tr @ [Request (Suc a), Sleep (min (1000 * Suc a) 3000)])"
  by (subst fetchLoop.simps) simp

lemma fetchLoop_last:
  "int a \<le> r \<Longrightarrow> net (Suc a) = Threw e ms \<Longrightarrow> name e \<noteq> ''AbortError'' \<Longrightarrow>
   \<not> int (Suc a) \<le> r \<Longrightarrow>
   fetchLoop u t r net a le tr = (exhaustedResult u (Some e), tr @ [Request (Suc a)])"
  by (subst fetchLoop.simps) (simp add: fetchLoop_done)

lemma backoffFrom_zero: "backoffFrom a 0 = []"
  by (simp add: backoffFrom_def)

lemma backoffFrom_one: "backoffFrom a (Suc 0) = [Request (Suc a)]"
  by (simp add: backoffFrom_def)

lemma backoffFrom_step:
  "Request (Suc a) # Sleep (min (1000 * Suc a) 3000) # backoffFrom (Suc a) (Suc n)
     = backoffFrom a (Suc (Suc n))"
proof -
  have "[a + 1 ..< a + Suc (Suc n)] = Suc a # [Suc a + 1 ..< Suc a + Suc n]"
    by (simp add: upt_conv_Cons)
  then show ?thesis by (simp add: backoffFrom_def)
qed

text \<open>The shape of the effects, whatever the network does.\<close>

lemma fetchLoop_trace:
  "\<exists>n. n \<le> nat (r + 1 - int a) \<and> (int a \<le> r \<longrightarrow> n \<ge> 1)
     \<and> snd (fetchLoop u t r net a le tr) = tr @ backoffFrom a n"
proof (induction u t r net a le tr rule: fetchLoop.induct)
  case (1 u t r net attempt lastError tr0)
  show ?case
  proof (cases "int attempt \<le> r")
    case False
    then show ?thesis by (intro exI[of _ 0]) (simp add: fetchLoop_done backoffFrom_zero)
  next
    case True
    show ?thesis
    proof (cases "net (attempt + 1)")
      case (Responded x1 x2 x3 x4)
      with True show ?thesis
        by (intro exI[of _ 1]) (simp add: fetchLoop_responded backoffFrom_one)
    next
      case (Threw e x5)
      show ?thesis
      proof (cases "name e = ''AbortError''")
        case True
        with \<open>int attempt \<le> r\<close> Threw show ?thesis
          by (intro exI[of _ 1]) (simp add: fetchLoop_timeout backoffFrom_one)
      next
        case notAbort: False
        show ?thesis
        proof (cases "int (attempt + 1) \<le> r")
          case more: True
          from "1.IH"(1)[OF True Threw notAbort more]
          obtain n where n: "n \<le> nat (r + 1 - int (attempt + 1))" "n \<ge> 1"
            and tr: "snd (fetchLoop u t r net (attempt + 1) (Some e)
                    (tr0 @ [Request (attempt + 1), Sleep (min (1000 * (attempt + 1)) 3000)]))
                 = (tr0 @ [Request (attempt + 1), Sleep (min (1000 * (attempt + 1)) 3000)])
                     @ backoffFrom (attempt + 1) n"
            using more by blast
          from n(2) obtain m where m: "n = Suc m" by (cases n) auto
          have "snd (fetchLoop u t r net attempt lastError tr0) = tr0 @ backoffFrom attempt (Suc n)"
            using fetchLoop_retry[of attempt r net e x5 u t lastError tr0] more Threw notAbort tr
              backoffFrom_step[of attempt m] m by simp
          moreover have "Suc n \<le> nat (r + 1 - int attempt)" using n(1) more by simp
          ultimately show ?thesis by (intro exI[of _ "Suc n"]) simp
        next
          case last: False
          with True Threw notAbort show ?thesis
            by (intro exI[of _ 1]) (simp add: fetchLoop_last backoffFrom_one)
        qed
      qed
    qed
  qed
qed

text \<open>After \<open>n\<close> retryable failures in a row the loop stands at attempt \<open>a + n\<close>.\<close>

lemma fetchLoop_failures:
  "(\<forall>j. a < j \<and> j \<le> a + n \<longrightarrow> retryable (net j)) \<Longrightarrow> int (a + n) \<le> r \<Longrightarrow>
   fetchLoop u t r net a le tr
     = fetchLoop u t r net (a + n) (if n = 0 then le else thrown (net (a + n)))
         (tr @ concat (map (\<lambda>k. [Request k, Sleep (min (1000 * k) 3000)]) [a + 1 ..< a + n + 1]))"
proof (induction n arbitrary: a le tr)
  case 0
  then show ?case by simp
next
  case (Suc n)
  from Suc.prems(1) have "retryable (net (Suc a))" by simp
  then obtain e ms where e: "net (Suc a) = Threw e ms" "name e \<noteq> ''AbortError''"
    by (cases "net (Suc a)") auto
  from Suc.prems(2) have le_a: "int (Suc a) \<le> r" by simp
  have first: "fetchLoop u t r net a le tr
     = fetchLoop u t r net (Suc a) (Some e) (tr @ [Request (Suc a), Sleep (min (1000 * Suc a) 3000)])"
    using fetchLoop_retry[of a r net e ms u t le tr] le_a e by blast
  have "\<forall>j. Suc a < j \<and> j \<le> Suc a + n \<longrightarrow> retryable (net j)" using Suc.prems(1) by simp
  moreover have "int (Suc a + n) \<le> r" using Suc.prems(2) by simp
  ultimately have rest: "fetchLoop u t r net (Suc a) (Some e) (tr @ [Request (Suc a), Sleep (min (1000 * Suc a) 3000)])
      = fetchLoop u t r net (Suc a + n) (if n = 0 then Some e else thrown (net (Suc a + n)))
         ((tr @ [Request (Suc a), Sleep (min (1000 * Suc a) 3000)]) @ concat (map (\<lambda>k. [Request k, Sleep (min (1000 * k) 3000)]) [Suc a + 1 ..< Suc a + n + 1]))"
    by (rule Suc.IH)
  have upt: "[a + 1 ..< a + Suc n + 1] = Suc a # [Suc a + 1 ..< Suc a + n + 1]"
    by (simp add: upt_conv_Cons)
  have le': "(if n = 0 then Some e else thrown (net (Suc a + n))) = thrown (net (a + Suc n))"
    using e by (cases "n = 0") simp_all
  show ?case unfolding first rest upt le' by simp
qed

lemma fetchLoop_result:
  "(\<exists>m. error (fst (fetchLoop u t r net a le tr)) = Some m \<and> m \<noteq> []
        \<and> statusCode (fst (fetchLoop u t r net a le tr)) = 0)
   \<or> (\<exists>k st tx ru ms. net k = Responded st tx ru ms
        \<and> fst (fetchLoop u t r net a le tr) = responseResult u st tx ru ms)"
proof (induction u t r net a le tr rule: fetchLoop.induct)
  case (1 u t r net attempt lastError tr0)
  show ?case
  proof (cases "int attempt \<le> r")
    case False
    then show ?thesis
      by (auto simp: fetchLoop_done exhaustedResult_def lastErrorMessage_def split: option.splits)
  next
    case True
    show ?thesis
    proof (cases "net (attempt + 1)")
      case (Responded x1 x2 x3 x4)
      with True have "fst (fetchLoop u t r net attempt lastError tr0) = responseResult u x1 x2 x3 x4"
        by (simp add: fetchLoop_responded)
      with Responded show ?thesis by blast
    next
      case (Threw e x5)
      show ?thesis
      proof (cases "name e = ''AbortError''")
        case True
        with \<open>int attempt \<le> r\<close> Threw show ?thesis
          by (simp add: fetchLoop_timeout timeoutResult_def)
      next
        case notAbort: False
        show ?thesis
        proof (cases "int (attempt + 1) \<le> r")
          case more: True
          from "1.IH"(1)[OF True Threw notAbort more]
            fetchLoop_retry[of attempt r net e x5 u t lastError tr0] more Threw notAbort
          show ?thesis by simp
        next
          case last: False
          with True Threw notAbort show ?thesis
            by (simp add: fetchLoop_last exhaustedResult_def lastErrorMessage_def)
        qed
      qed
    qed
  qed
qed

lemma fetchUrl_result:
  "(\<exists>m. error (fst (fetchUrl u options net)) = Some m \<and> m \<noteq> []
        \<and> statusCode (fst (fetchUrl u options net)) = 0)
   \<or> (\<exists>k st tx ru ms. net k = Responded st tx ru ms
        \<and> fst (fetchUrl u options net) = responseResult u st tx ru ms)"
  unfolding fetchUrl_def by (rule fetchLoop_result)

lemma flare_result:
  "(\<exists>m. error (fetchUrlWithFlareSolverr u reply ms) = Some m \<and> m \<noteq> []
        \<and> statusCode (fetchUrlWithFlareSolverr u reply ms) = 0)
   \<or> (error (fetchUrlWithFlareSolverr u reply ms) = None
       \<and> (\<exists>st d sol. reply = Replied st (JsonData d) \<and> solution d = Some sol
            \<and> statusCode (fetchUrlWithFlareSolverr u reply ms) = sol_status sol
            \<and> body (fetchUrlWithFlareSolverr u reply ms) = sol_response sol
            \<and> finalUrl (fetchUrlWithFlareSolverr u reply ms) = sol_url sol
            \<and> wasRedirected (fetchUrlWithFlareSolverr u reply ms) = (sol_url sol \<noteq> u)))"
  by (auto simp: fetchUrlWithFlareSolverr_def flareCaught_def split: FlareReply.splits FlareJson.splits option.splits)

text \<open>
  Claim C4: every outcome of either fetch strategy is complete. Either its \<open>error\<close> is
  set (to a non-empty message) and its \<open>statusCode\<close> is 0, or its \<open>error\<close> is absent and
  its HTTP fields come from a response: for \<open>fetchUrl\<close> the status, body and URL of some
  attempt that the network answered, for \<open>fetchUrlWithFlareSolverr\<close> the status, body and
  URL of the solution in the proxy's envelope.
\<close>

theorem fetch_outcome_complete:
  "((\<exists>m. error (fst (fetchUrl u options net)) = Some m \<and> m \<noteq> []
        \<and> statusCode (fst (fetchUrl u options net)) = 0)
    \<or> (error (fst (fetchUrl u options net)) = None
       \<and> (\<exists>k st tx ru ms. net k = Responded st tx ru ms
            \<and> statusCode (fst (fetchUrl u options net)) = st
            \<and> body (fst (fetchUrl u options net)) = tx
            \<and> finalUrl (fst (fetchUrl u options net)) = (if ru = [] then u else ru)
            \<and> wasRedirected (fst (fetchUrl u options net)) = (finalUrl (fst (fetchUrl u options net)) \<noteq> u))))
   \<and> ((\<exists>m. error (fetchUrlWithFlareSolverr u reply ms) = Some m \<and> m \<noteq> []
        \<and> statusCode (fetchUrlWithFlareSolverr u reply ms) = 0)
    \<or> (error (fetchUrlWithFlareSolverr u reply ms) = None
       \<and> (\<exists>st d sol. reply = Replied st (JsonData d) \<and> solution d = Some sol
            \<and> statusCode (fetchUrlWithFlareSolverr u reply ms) = sol_status sol
            \<and> body (fetchUrlWithFlareSolverr u reply ms) = sol_response sol
            \<and> finalUrl (fetchUrlWithFlareSolverr u reply ms) = sol_url sol
            \<and> wasRedirected (fetchUrlWithFlareSolverr u reply ms) = (sol_url sol \<noteq> u))))"
proof
  show "(\<exists>m. error (fst (fetchUrl u options net)) = Some m \<and> m \<noteq> []
        \<and> statusCode (fst (fetchUrl u options net)) = 0)
    \<or> (error (fst (fetchUrl u options net)) = None
       \<and> (\<exists>k st tx ru ms. net k = Responded st tx ru ms
            \<and> statusCode (fst (fetchUrl u options net)) = st
            \<and> body (fst (fetchUrl u options net)) = tx
            \<and> finalUrl (fst (fetchUrl u options net)) = (if ru = [] then u else ru)
            \<and> wasRedirected (fst (fetchUrl u options net)) = (finalUrl (fst (fetchUrl u options net)) \<noteq> u)))"
  proof (rule disjE[OF fetchUrl_result[of u options net]])
    assume "\<exists>m. error (fst (fetchUrl u options net)) = Some m \<and> m \<noteq> []
        \<and> statusCode (fst (fetchUrl u options net)) = 0"
    then show ?thesis by (rule disjI1)
  next
    assume "\<exists>k st tx ru ms. net k = Responded st tx ru ms
        \<and> fst (fetchUrl u options net) = responseResult u st tx ru ms"
    then obtain k st tx ru ms where k: "net k = Responded st tx ru ms"
      and r: "fst (fetchUrl u options net) = responseResult u st tx ru ms" by blast
    have "error (responseResult u st tx ru ms) = None"
      "statusCode (responseResult u st tx ru ms) = st"
      "body (responseResult u st tx ru ms) = tx"
      "finalUrl (responseResult u st tx ru ms) = (if ru = [] then u else ru)"
      "wasRedirected (responseResult u st tx ru ms) = (finalUrl (responseResult u st tx ru ms) \<noteq> u)"
      by (simp_all add: responseResult_def Let_def)
    with k show ?thesis unfolding r by blast
  qed
  show "(\<exists>m. error (fetchUrlWithFlareSolverr u reply ms) = Some m \<and> m \<noteq> []
        \<and> statusCode (fetchUrlWithFlareSolverr u reply ms) = 0)
    \<or> (error (fetchUrlWithFlareSolverr u reply ms) = None
       \<and> (\<exists>st d sol. reply = Replied st (JsonData d) \<and> solution d = Some sol
            \<and> statusCode (fetchUrlWithFlareSolverr u reply ms) = sol_status sol
            \<and> body (fetchUrlWithFlareSolverr u reply ms) = sol_response sol
            \<and> finalUrl (fetchUrlWithFlareSolverr u reply ms) = sol_url sol
            \<and> wasRedirected (fetchUrlWithFlareSolverr u reply ms) = (sol_url sol \<noteq> u)))"
    by (rule flare_result)
qed

theorem fetch_outcome_complete_witness:
  "error (fst (fetchUrl ''http://a.test/'' \<lparr>timeout = None, retries = Some 0\<rparr> silentFailure))
     = Some ''Unknown error''
   \<and> statusCode (fst (fetchUrl ''http://a.test/'' \<lparr>timeout = None, retries = Some 0\<rparr> silentFailure)) = 0
   \<and> error (fetchUrlWithFlareSolverr ''http://a.test/'' solvedReply 40) = None
   \<and> statusCode (fetchUrlWithFlareSolverr ''http://a.test/'' solvedReply 40) = 200
   \<and> error (fetchUrlWithFlareSolverr ''http://a.test/'' brokenReply 40)
       = Some ''Cannot read properties of undefined''
   \<and> statusCode (fetchUrlWithFlareSolverr ''http://a.test/'' brokenReply 40) = 0"
proof -
  have 1: "fst (fetchUrl ''http://a.test/'' \<lparr>timeout = None, retries = Some 0\<rparr> silentFailure)
      = exhaustedResult ''http://a.test/'' (Some (JsError ''Error'' []))"
    using fetchLoop_last[of 0 0 silentFailure "JsError ''Error'' []" 7 "''http://a.test/''" 10000 None "[]"]
    by (simp add: fetchUrl_def timeoutOf_def retriesOf_def silentFailure_def)
  have 4: "fetchUrlWithFlareSolverr ''http://a.test/'' solvedReply 40
      = \<lparr>statusCode = 200, body = ''<p>x</p>'', finalUrl = ''http://a.test/'', wasRedirected = False,
         responseTimeMs = 40, error = None\<rparr>"
    by (simp add: fetchUrlWithFlareSolverr_def solvedReply_def)
  have 5: "fetchUrlWithFlareSolverr ''http://a.test/'' brokenReply 40
      = flareCaught ''http://a.test/'' 40 (JsError ''TypeError'' ''Cannot read properties of undefined'')"
    by (simp add: fetchUrlWithFlareSolverr_def brokenReply_def)
  from fetch_outcome_complete[of "''http://a.test/''" "\<lparr>timeout = None, retries = Some 0\<rparr>" silentFailure solvedReply 40]
  show ?thesis
    unfolding 1 4 5 by (simp add: exhaustedResult_def lastErrorMessage_def flareCaught_def)
qed

lemma backoffFrom_Suc:
  "backoffFrom 0 (Suc n)
     = concat (map (\<lambda>k. [Request k, Sleep (min (1000 * k) 3000)]) [1 ..< Suc n]) @ [Request (Suc n)]"
  by (simp add: backoffFrom_def)

lemma fetchUrl_timeout_at:
  assumes k: "1 \<le> k" "int k \<le> retriesOf options + 1"
    and before: "\<forall>j. 1 \<le> j \<and> j < k \<longrightarrow> retryable (net j)"
    and at: "net k = Threw e ms" "name e = ''AbortError''"
  shows "fetchUrl u options net = (timeoutResult u (timeoutOf options) ms, backoffFrom 0 k)"
proof -
  from k(1) obtain n where n: "k = Suc n" by (cases k) auto
  have f: "\<forall>j. 0 < j \<and> j \<le> 0 + n \<longrightarrow> retryable (net j)" using before n by auto
  have le: "int (0 + n) \<le> retriesOf options" using k(2) n by simp
  have "fetchUrl u options net
      = fetchLoop u (timeoutOf options) (retriesOf options) net (0 + n)
          (if n = 0 then None else thrown (net (0 + n)))
          ([] @ concat (map (\<lambda>k. [Request k, Sleep (min (1000 * k) 3000)]) [0 + 1 ..< 0 + n + 1]))"
    unfolding fetchUrl_def by (rule fetchLoop_failures[OF f le])
  also have "\<dots> = (timeoutResult u (timeoutOf options) ms,
      ([] @ concat (map (\<lambda>k. [Request k, Sleep (min (1000 * k) 3000)]) [0 + 1 ..< 0 + n + 1])) @ [Request (Suc (0 + n))])"
    using le at n by (intro fetchLoop_timeout) simp_all
  finally show ?thesis by (simp add: n backoffFrom_Suc)
qed

lemma fetchUrl_exhausted:
  assumes r: "0 \<le> retriesOf options"
    and all: "\<forall>j. 1 \<le> j \<and> j \<le> nat (retriesOf options) + 1 \<longrightarrow> retryable (net j)"
    and last: "net (nat (retriesOf options) + 1) = Threw e ms"
  shows "fetchUrl u options net
     = (exhaustedResult u (Some e), backoffFrom 0 (nat (retriesOf options) + 1))"
proof -
  define n where "n = nat (retriesOf options)"
  have f: "\<forall>j. 0 < j \<and> j \<le> 0 + n \<longrightarrow> retryable (net j)" using all n_def by auto
  have le: "int (0 + n) \<le> retriesOf options" using r n_def by simp
  have notAbort: "name e \<noteq> ''AbortError''"
    using all[rule_format, of "nat (retriesOf options) + 1"] last by simp
  have "fetchUrl u options net
      = fetchLoop u (timeoutOf options) (retriesOf options) net (0 + n)
          (if n = 0 then None else thrown (net (0 + n)))
          ([] @ concat (map (\<lambda>k. [Request k, Sleep (min (1000 * k) 3000)]) [0 + 1 ..< 0 + n + 1]))"
    unfolding fetchUrl_def by (rule fetchLoop_failures[OF f le])
  also have "\<dots> = (exhaustedResult u (Some e),
      ([] @ concat (map (\<lambda>k. [Request k, Sleep (min (1000 * k) 3000)]) [0 + 1 ..< 0 + n + 1])) @ [Request (Suc (0 + n))])"
    using le last notAbort r n_def by (intro fetchLoop_last) simp_all
  finally show ?thesis by (simp add: n_def[symmetric] backoffFrom_Suc)
qed

lemma fetchUrl_trace:
  "\<exists>n. n \<le> nat (retriesOf options + 1) \<and> snd (fetchUrl u options net) = backoffFrom 0 n"
  using fetchLoop_trace[of "retriesOf options" 0 u "timeoutOf options" net None "[]"]
  unfolding fetchUrl_def by auto

lemma digit_chars:
  "char_of (48::nat) = CHR ''0''" "char_of (49::nat) = CHR ''1''" "char_of (50::nat) = CHR ''2''"
  "char_of (51::nat) = CHR ''3''" "char_of (52::nat) = CHR ''4''" "char_of (53::nat) = CHR ''5''"
  "char_of (54::nat) = CHR ''6''" "char_of (55::nat) = CHR ''7''" "char_of (56::nat) = CHR ''8''"
  "char_of (57::nat) = CHR ''9''"
  by (simp_all add: char_of_def bit_0)

text \<open>
  Claim C3, as the specification states it: exhausting all attempts without success
  yields an outcome with \<open>statusCode\<close> 0 carrying the last error's message. The source
  returns \<^verbatim>\<open>lastError?.message || 'Unknown error'\<close>: when every attempt throws an error
  whose message is empty, the outcome carries \<^verbatim>\<open>Unknown error\<close>, not the (empty) message
  of the last error.
\<close>

theorem fetchUrl_empty_message_counterexample:
  "thrown (silentFailure 2) = Some (JsError ''Error'' [])
   \<and> error (fst (fetchUrl ''http://a.test/'' \<lparr>timeout = None, retries = Some 1\<rparr> silentFailure))
       = Some ''Unknown error''
   \<and> error (fst (fetchUrl ''http://a.test/'' \<lparr>timeout = None, retries = Some 1\<rparr> silentFailure))
       \<noteq> Some (message (JsError ''Error'' []))"
proof -
  have "fetchUrl ''http://a.test/'' \<lparr>timeout = None, retries = Some 1\<rparr> silentFailure
      = (exhaustedResult ''http://a.test/'' (Some (JsError ''Error'' [])),
         backoffFrom 0 (nat (retriesOf \<lparr>timeout = None, retries = Some 1\<rparr>) + 1))"
    by (rule fetchUrl_exhausted) (simp_all add: retriesOf_def silentFailure_def)
  then show ?thesis
    by (simp add: exhaustedResult_def lastErrorMessage_def silentFailure_def)
qed

text \<open>
  Claim C3, amended: for every URL and options with \<open>maxRetries = r\<close>, \<open>fetchUrl\<close> makes
  at most \<open>r + 1\<close> requests (at most \<open>r\<close> after the first), and between request \<open>k\<close> and
  the next it sleeps \<open>min (1000 * k) 3000\<close> milliseconds and does nothing else; a timeout
  (an \<^verbatim>\<open>AbortError\<close>) at request \<open>k\<close>, after non-timeout failures only, ends the run at
  that request with \<open>statusCode\<close> 0 and the message \<^verbatim>\<open>Request timeout after <timeout>ms\<close>;
  and when all \<open>r + 1\<close> requests fail without a timeout the outcome has \<open>statusCode\<close> 0
  and carries the last error's message, or \<^verbatim>\<open>Unknown error\<close> when that message is empty.
\<close>

theorem fetchUrl_retry_policy:
  "(\<exists>n. n \<le> nat (retriesOf options + 1) \<and> snd (fetchUrl u options net) = backoffFrom 0 n)
   \<and> (\<forall>k e ms.
        1 \<le> k \<and> int k \<le> retriesOf options + 1
        \<and> (\<forall>j. 1 \<le> j \<and> j < k \<longrightarrow> retryable (net j))
        \<and> net k = Threw e ms \<and> name e = ''AbortError''
        \<longrightarrow> snd (fetchUrl u options net) = backoffFrom 0 k
            \<and> statusCode (fst (fetchUrl u options net)) = 0
            \<and> error (fst (fetchUrl u options net))
                = Some (''Request timeout after '' @ showNat (timeoutOf options) @ ''ms''))
   \<and> (\<forall>e ms.
        0 \<le> retriesOf options
        \<and> (\<forall>j. 1 \<le> j \<and> j \<le> nat (retriesOf options) + 1 \<longrightarrow> retryable (net j))
        \<and> net (nat (retriesOf options) + 1) = Threw e ms
        \<longrightarrow> snd (fetchUrl u options net) = backoffFrom 0 (nat (retriesOf options) + 1)
            \<and> statusCode (fst (fetchUrl u options net)) = 0
            \<and> error (fst (fetchUrl u options net))
                = Some (if message e = [] then ''Unknown error'' else message e))"
proof (intro conjI allI impI)
  show "\<exists>n. n \<le> nat (retriesOf options + 1) \<and> snd (fetchUrl u options net) = backoffFrom 0 n"
    by (rule fetchUrl_trace)
next
  fix k e ms
  assume h: "1 \<le> k \<and> int k \<le> retriesOf options + 1
        \<and> (\<forall>j. 1 \<le> j \<and> j < k \<longrightarrow> retryable (net j))
        \<and> net k = Threw e ms \<and> name e = ''AbortError''"
  then have r: "fetchUrl u options net = (timeoutResult u (timeoutOf options) ms, backoffFrom 0 k)"
    by (intro fetchUrl_timeout_at) blast+
  show "snd (fetchUrl u options net) = backoffFrom 0 k" by (simp add: r)
  show "statusCode (fst (fetchUrl u options net)) = 0" by (simp add: r timeoutResult_def)
  show "error (fst (fetchUrl u options net))
      = Some (''Request timeout after '' @ showNat (timeoutOf options) @ ''ms'')"
    by (simp add: r timeoutResult_def)
next
  fix e ms
  assume h: "0 \<le> retriesOf options
        \<and> (\<forall>j. 1 \<le> j \<and> j \<le> nat (retriesOf options) + 1 \<longrightarrow> retryable (net j))
        \<and> net (nat (retriesOf options) + 1) = Threw e ms"
  then have r: "fetchUrl u options net
      = (exhaustedResult u (Some e), backoffFrom 0 (nat (retriesOf options) + 1))"
    by (intro fetchUrl_exhausted) blast+
  show "snd (fetchUrl u options net) = backoffFrom 0 (nat (retriesOf options) + 1)" by (simp add: r)
  show "statusCode (fst (fetchUrl u options net)) = 0" by (simp add: r exhaustedResult_def)
  show "error (fst (fetchUrl u options net))
      = Some (if message e = [] then ''Unknown error'' else message e)"
    by (simp add: r exhaustedResult_def lastErrorMessage_def)
qed

theorem fetchUrl_retry_policy_witness:
  "snd (fetchUrl ''http://a.test/'' \<lparr>timeout = Some 5000, retries = Some 3\<rparr> failThenTimeout)
     = [Request 1, Sleep 1000, Request 2]
   \<and> statusCode (fst (fetchUrl ''http://a.test/'' \<lparr>timeout = Some 5000, retries = Some 3\<rparr> failThenTimeout)) = 0
   \<and> error (fst (fetchUrl ''http://a.test/'' \<lparr>timeout = Some 5000, retries = Some 3\<rparr> failThenTimeout))
       = Some ''Request timeout after 5000ms''
   \<and> snd (fetchUrl ''http://a.test/'' \<lparr>timeout = None, retries = Some 4\<rparr> alwaysRefused)
       = [Request 1, Sleep 1000, Request 2, Sleep 2000, Request 3, Sleep 3000, Request 4,
          Sleep 3000, Request 5]
   \<and> error (fst (fetchUrl ''http://a.test/'' \<lparr>timeout = None, retries = Some 4\<rparr> alwaysRefused))
       = Some ''fetch failed''"
proof -
  have s: "showNat 5000 = ''5000''" by (simp add: showNat.simps digit_chars)
  have b2: "backoffFrom 0 2 = [Request 1, Sleep 1000, Request 2]"
    by (simp add: backoffFrom_def upt_conv_Cons)
  have b5: "backoffFrom 0 5 = [Request 1, Sleep 1000, Request 2, Sleep 2000, Request 3, Sleep 3000,
      Request 4, Sleep 3000, Request 5]"
    by (simp add: backoffFrom_def upt_conv_Cons)
  have j: "\<forall>j. 1 \<le> j \<and> j < (2::nat) \<longrightarrow> retryable (failThenTimeout j)"
    by (auto simp: failThenTimeout_def)
  have t: "failThenTimeout 2 = Threw (JsError ''AbortError'' ''This operation was aborted'') 10000"
    by (simp add: failThenTimeout_def)
  have 1: "snd (fetchUrl ''http://a.test/'' \<lparr>timeout = Some 5000, retries = Some 3\<rparr> failThenTimeout)
        = backoffFrom 0 2
     \<and> statusCode (fst (fetchUrl ''http://a.test/'' \<lparr>timeout = Some 5000, retries = Some 3\<rparr> failThenTimeout)) = 0
     \<and> error (fst (fetchUrl ''http://a.test/'' \<lparr>timeout = Some 5000, retries = Some 3\<rparr> failThenTimeout))
        = Some (''Request timeout after '' @ showNat (timeoutOf \<lparr>timeout = Some 5000, retries = Some 3\<rparr>) @ ''ms'')"
    using fetchUrl_retry_policy[of "\<lparr>timeout = Some 5000, retries = Some 3\<rparr>" "''http://a.test/''" failThenTimeout,
        THEN conjunct2, THEN conjunct1, rule_format,
        of 2 "JsError ''AbortError'' ''This operation was aborted''" 10000] j t
    by (simp add: retriesOf_def)
  have 2: "snd (fetchUrl ''http://a.test/'' \<lparr>timeout = None, retries = Some 4\<rparr> alwaysRefused)
        = backoffFrom 0 (nat (retriesOf \<lparr>timeout = None, retries = Some 4\<rparr>) + 1)
     \<and> statusCode (fst (fetchUrl ''http://a.test/'' \<lparr>timeout = None, retries = Some 4\<rparr> alwaysRefused)) = 0
     \<and> error (fst (fetchUrl ''http://a.test/'' \<lparr>timeout = None, retries = Some 4\<rparr> alwaysRefused))
        = Some (if message (JsError ''TypeError'' ''fetch failed'') = [] then ''Unknown error''
                else message (JsError ''TypeError'' ''fetch failed''))"
    using fetchUrl_retry_policy[of "\<lparr>timeout = None, retries = Some 4\<rparr>" "''http://a.test/''" alwaysRefused,
        THEN conjunct2, THEN conjunct2, rule_format,
        of "JsError ''TypeError'' ''fetch failed''" 12]
    by (simp add: retriesOf_def alwaysRefused_def)
  from 1 2 show ?thesis by (simp add: b2 b5 s timeoutOf_def retriesOf_def)
qed


subsection \<open>Properties of normalizeUrl\<close>

lemma normalizeUrl_parsed:
  "parseURL api u = Some parsed \<Longrightarrow> normalizeUrl api u = href api (normalizeRecord api parsed)"
  by (simp add: normalizeUrl_def normalizeUrlTry_def newURL_def)

lemma normalizeUrl_unparsed: "parseURL api u = None \<Longrightarrow> normalizeUrl api u = u"
  by (simp add: normalizeUrl_def normalizeUrlTry_def newURL_def)

lemma sort_key_twice: "sort_key f (sort_key f xs) = sort_key f xs"
  by (simp add: sort_key_id_if_sorted)

lemma sortSearchParams_twice:
  "sortSearchParams api (sortSearchParams api parsed) = sortSearchParams api parsed"
  by (simp add: sortSearchParams_def Let_def sort_key_twice)

lemma stripTrailingSlash_pathname:
  "\<not> opaquePath parsed \<Longrightarrow> pathname (stripTrailingSlash parsed) = strippedPath (pathname parsed)"
  by (simp add: stripTrailingSlash_def strippedPath_def setPathname_def)

lemma stripTrailingSlash_opaque:
  "opaquePath parsed \<Longrightarrow> stripTrailingSlash parsed = parsed"
  by (simp add: stripTrailingSlash_def setPathname_def)

lemma endsWith_nonempty: "endsWith s ''/'' \<Longrightarrow> s \<noteq> []"
  by (auto simp: endsWith_def)

lemma strippedPath_fixed:
  assumes "strippedPath b = b"
  shows "\<not> (b \<noteq> ''/'' \<and> endsWith b ''/'')"
proof
  assume c: "b \<noteq> ''/'' \<and> endsWith b ''/''"
  then have "butlast b = b" using assms by (simp add: strippedPath_def)
  moreover have "b \<noteq> []" using c by (simp add: endsWith_nonempty)
  ultimately show False by (metis length_butlast diff_less length_greater_0_conv less_irrefl zero_less_one)
qed

lemma stripTrailingSlash_id:
  "\<not> (pathname q \<noteq> ''/'' \<and> endsWith (pathname q) ''/'') \<Longrightarrow> stripTrailingSlash q = q"
  by (auto simp: stripTrailingSlash_def)

lemma stripTrailingSlash_twice:
  assumes "stablePath parsed"
  shows "stripTrailingSlash (stripTrailingSlash parsed) = stripTrailingSlash parsed"
proof (cases "opaquePath parsed")
  case True
  then show ?thesis by (simp add: stripTrailingSlash_opaque)
next
  case False
  with assms have st: "strippedPath (strippedPath (pathname parsed)) = strippedPath (pathname parsed)"
    by (simp add: stablePath_def)
  have "pathname (stripTrailingSlash parsed) = strippedPath (pathname parsed)"
    using False by (rule stripTrailingSlash_pathname)
  with strippedPath_fixed[OF st]
  have "\<not> (pathname (stripTrailingSlash parsed) \<noteq> ''/''
          \<and> endsWith (pathname (stripTrailingSlash parsed)) ''/'')" by simp
  then show ?thesis by (rule stripTrailingSlash_id)
qed

lemma normalizeRecord_twice:
  assumes "stablePath parsed"
  shows "normalizeRecord api (normalizeRecord api parsed) = normalizeRecord api parsed"
proof -
  define q where "q = stripTrailingSlash (clearHash parsed)"
  have "stablePath (clearHash parsed)" using assms by (simp add: stablePath_def clearHash_def)
  then have q2: "stripTrailingSlash q = q" unfolding q_def by (rule stripTrailingSlash_twice)
  have fq: "fragment q = None"
    by (simp add: q_def stripTrailingSlash_def setPathname_def clearHash_def)
  have c: "clearHash (sortSearchParams api q) = sortSearchParams api q"
    using fq by (simp add: clearHash_def sortSearchParams_def Let_def)
  have s: "stripTrailingSlash (sortSearchParams api q) = sortSearchParams api (stripTrailingSlash q)"
    by (simp add: stripTrailingSlash_def sortSearchParams_def Let_def setPathname_def)
  show ?thesis
    unfolding normalizeRecord_def q_def[symmetric] c s q2 by (rule sortSearchParams_twice)
qed


text \<open>
  Claim C7, as the specification states it: \<open>normalizeUrl\<close> is idempotent on every
  string. The source strips one trailing slash per call: for \<^verbatim>\<open>http://a.test/b//\<close> the first
  call gives \<^verbatim>\<open>http://a.test/b/\<close> and the second gives \<^verbatim>\<open>http://a.test/b\<close>.
\<close>

theorem normalizeUrl_double_slash_counterexample:
  "normalizeUrl plainApi ''http://a.test/b//'' = ''http://a.test/b/''
   \<and> normalizeUrl plainApi (normalizeUrl plainApi ''http://a.test/b//'') = ''http://a.test/b''
   \<and> normalizeUrl plainApi (normalizeUrl plainApi ''http://a.test/b//'')
       \<noteq> normalizeUrl plainApi ''http://a.test/b//''"
proof -
  have 1: "normalizeUrl plainApi ''http://a.test/b//'' = ''http://a.test/b/''" by code_simp
  have 2: "normalizeUrl plainApi ''http://a.test/b/'' = ''http://a.test/b''" by code_simp
  show ?thesis unfolding 1 2 by simp
qed

text \<open>
  Claim C7, amended: \<open>normalizeUrl (normalizeUrl u) = normalizeUrl u\<close> for every string
  \<open>u\<close> that fails to parse, and for every \<open>u\<close> that parses to a URL whose path is opaque
  or is stable under stripping one trailing slash (it is the root, has no trailing slash,
  or has exactly one), provided the platform parses its own serialisation of the normalised
  URL back to the same URL. Fragment stripping and query sorting are stable under a
  second application.
\<close>

theorem normalizeUrl_idempotent:
  assumes "case parseURL api u of
             None \<Rightarrow> True
           | Some parsed \<Rightarrow>
               stablePath parsed
               \<and> parseURL api (href api (normalizeRecord api parsed))
                   = Some (normalizeRecord api parsed)"
  shows "normalizeUrl api (normalizeUrl api u) = normalizeUrl api u"
proof (cases "parseURL api u")
  case None
  then show ?thesis by (simp add: normalizeUrl_unparsed)
next
  case (Some parsed)
  with assms have st: "stablePath parsed"
    and rt: "parseURL api (href api (normalizeRecord api parsed)) = Some (normalizeRecord api parsed)"
    by simp_all
  have 1: "normalizeUrl api u = href api (normalizeRecord api parsed)"
    using Some by (rule normalizeUrl_parsed)
  have "normalizeUrl api (href api (normalizeRecord api parsed))
      = href api (normalizeRecord api (normalizeRecord api parsed))"
    using rt by (rule normalizeUrl_parsed)
  then show ?thesis unfolding 1 by (simp add: normalizeRecord_twice[OF st])
qed

theorem normalizeUrl_idempotent_witness:
  "normalizeUrl plainApi (normalizeUrl plainApi ''https://a.test/b/?y=2&x=1#top'')
     = normalizeUrl plainApi ''https://a.test/b/?y=2&x=1#top''
   \<and> normalizeUrl plainApi ''https://a.test/b/?y=2&x=1#top'' = ''https://a.test/b?x=1&y=2''"
proof -
  have h: "case parseURL plainApi ''https://a.test/b/?y=2&x=1#top'' of
             None \<Rightarrow> True
           | Some parsed \<Rightarrow>
               stablePath parsed
               \<and> parseURL plainApi (href plainApi (normalizeRecord plainApi parsed))
                   = Some (normalizeRecord plainApi parsed)"
    by code_simp
  have v: "normalizeUrl plainApi ''https://a.test/b/?y=2&x=1#top'' = ''https://a.test/b?x=1&y=2''"
    by code_simp
  from normalizeUrl_idempotent[OF h] v show ?thesis by simp
qed

text \<open>
  Claim C10: \<open>normalizeUrl\<close> never raises. Its whole body is a \<^verbatim>\<open>try\<close> block whose
  \<^verbatim>\<open>catch\<close> returns the argument, so when the argument fails to parse, and whenever
  any exception leaves the block, the result is the argument unchanged.
\<close>

theorem normalizeUrl_total:
  "(parseURL api u = None \<longrightarrow> normalizeUrl api u = u)
   \<and> (\<forall>e. normalizeUrlTry api u = Inl e \<longrightarrow> normalizeUrl api u = u)
   \<and> (\<forall>parsed. parseURL api u = Some parsed \<longrightarrow>
         normalizeUrl api u = href api (normalizeRecord api parsed))"
  by (auto simp: normalizeUrl_def normalizeUrlTry_def newURL_def split: option.splits)

theorem normalizeUrl_total_witness:
  "parseURL plainApi ''not a url'' = None \<and> normalizeUrl plainApi ''not a url'' = ''not a url''"
proof -
  have "parseURL plainApi ''not a url'' = None" by code_simp
  with normalizeUrl_total[of plainApi "''not a url''"] show ?thesis by simp
qed


subsection \<open>Properties of validateUrl\<close>

text \<open>The invariant of the five checks: the status is ok exactly when no issue was pushed.\<close>

lemma notFoundCheck_inv:
  "(fst st = StatusOk \<longleftrightarrow> snd st = []) \<Longrightarrow>
   (fst (notFoundCheck res st) = StatusOk \<longleftrightarrow> snd (notFoundCheck res st) = [])"
  by (simp add: notFoundCheck_def)

lemma serverErrorCheck_inv:
  "(fst st = StatusOk \<longleftrightarrow> snd st = []) \<Longrightarrow>
   (fst (serverErrorCheck res st) = StatusOk \<longleftrightarrow> snd (serverErrorCheck res st) = [])"
  by (simp add: serverErrorCheck_def)

lemma redirectCheck_inv:
  "redirectCheck api destUrl res st = Inr st' \<Longrightarrow> (fst st = StatusOk \<longleftrightarrow> snd st = []) \<Longrightarrow>
   (fst st' = StatusOk \<longleftrightarrow> snd st' = [])"
  by (auto simp: redirectCheck_def escalate_def split: if_splits sum.splits)

lemma soft404Check_inv:
  "(fst st = StatusOk \<longleftrightarrow> snd st = []) \<Longrightarrow>
   (fst (soft404Check res b t st) = StatusOk \<longleftrightarrow> snd (soft404Check res b t st) = [])"
  by (simp add: soft404Check_def Let_def)

lemma titleCheck_inv:
  "(fst st = StatusOk \<longleftrightarrow> snd st = []) \<Longrightarrow>
   (fst (titleCheck s d st) = StatusOk \<longleftrightarrow> snd (titleCheck s d st) = [])"
  by (simp add: titleCheck_def escalate_def)

text \<open>
  Claim C8: every \<open>ValidationResult\<close> that \<open>validateUrl\<close> returns has status ok if and
  only if its list of issues is empty.
\<close>

theorem validateUrl_ok_iff_no_issues:
  assumes "validateUrl w p srcTitle destBase t = Inr r"
  shows "status r = StatusOk \<longleftrightarrow> issues r = []"
proof -
  define destUrl where "destUrl = joinUrl (urlApi w) destBase p"
  define res where "res = fst (fetchUrl destUrl \<lparr>timeout = Some t, retries = Some 1\<rparr> (network w destUrl))"
  show ?thesis
  proof (cases "falsy (error res)")
    case False
    with assms show ?thesis
      by (auto simp: validateUrl_def Let_def destUrl_def res_def)
  next
    case True
    define st2 where "st2 = serverErrorCheck res (notFoundCheck res (StatusOk, []))"
    have i2: "fst st2 = StatusOk \<longleftrightarrow> snd st2 = []"
      unfolding st2_def by (intro serverErrorCheck_inv notFoundCheck_inv) simp
    from assms True obtain st3 where st3: "redirectCheck (urlApi w) destUrl res st2 = Inr st3"
      and r: "r = \<lparr>sourcePath = p, sourceTitle = srcTitle, destinationUrl = destUrl,
                         destinationStatusCode = Some (statusCode res),
                         destinationTitle = extractTitle w (body res),
                         status = fst (titleCheck srcTitle (extractTitle w (body res))
                            (soft404Check res (extractBodyText w (body res)) (extractTitle w (body res)) st3)),
                         issues = snd (titleCheck srcTitle (extractTitle w (body res))
                            (soft404Check res (extractBodyText w (body res)) (extractTitle w (body res)) st3)),
                         resultTimeMs = Some (elapsedMs w destUrl)\<rparr>"
      by (auto simp: validateUrl_def Let_def destUrl_def[symmetric] res_def[symmetric] st2_def
          split: sum.splits)
    have i3: "fst st3 = StatusOk \<longleftrightarrow> snd st3 = []" by (rule redirectCheck_inv[OF st3 i2])
    show ?thesis unfolding r
      using titleCheck_inv[OF soft404Check_inv[OF i3]] by simp
  qed
qed

lemma fetchUrl_first_response:
  "net (Suc 0) = Responded st tx ru ms \<Longrightarrow> 0 \<le> retriesOf options \<Longrightarrow>
   fst (fetchUrl u options net) = responseResult u st tx ru ms"
  by (simp add: fetchUrl_def fetchLoop_responded)

lemma fetchUrl_no_error:
  assumes "falsy (error (fst (fetchUrl u options net)))"
  shows "\<exists>st tx ru ms. fst (fetchUrl u options net) = responseResult u st tx ru ms"
  using fetchUrl_result[of u options net] assms by (auto simp: falsy_def)

lemma responseResult_redirected:
  "wasRedirected (responseResult u st tx ru ms) = (finalUrl (responseResult u st tx ru ms) \<noteq> u)"
  by (simp add: responseResult_def Let_def)

lemma soft404Check_keeps:
  "i \<in> set (snd st) \<Longrightarrow> i \<in> set (snd (soft404Check res b t st))"
  by (simp add: soft404Check_def Let_def)

lemma titleCheck_keeps:
  "i \<in> set (snd st) \<Longrightarrow> i \<in> set (snd (titleCheck s d st))"
  by (simp add: titleCheck_def)

lemma redirectCheck_fires:
  assumes "wasRedirected res" "parseURL api destUrl = Some orig" "parseURL api (finalUrl res) = Some final"
    "pathname orig \<noteq> pathname final"
  shows "redirectCheck api destUrl res st
     = Inr (escalate (fst st),
            snd st @ [\<lparr>issueType = Redirect, issueMessage = ''Redirected to: '' @ pathname final,
                       details = [(''finalUrl'', [finalUrl res])]\<rparr>])"
  using assms by (simp add: redirectCheck_def newURL_def)

text \<open>
  Claim C6: the redirect-handling flag never influences the verdict. \<open>validate\<close> passes
  only the path, the title, the destination and the timeout to \<open>validateUrl\<close>, so two
  configurations that differ only in the flag (in particular the ones the command line
  builds with and without \<^verbatim>\<open>--redirects-ok\<close>) give identical results for every crawled
  URL; and whenever the fetch succeeds with a final URL whose path differs from the
  requested one, the redirect check pushes the redirect issue and escalates an ok status
  to warning, the issue is in the result and the result's status is not ok.
\<close>

theorem redirect_flag_ignored:
  "validateCrawled w (config\<lparr>redirectHandling := h\<rparr>) cu = validateCrawled w config cu
   \<and> validateCrawled w (validatorConfig i d n t out v True) cu
       = validateCrawled w (validatorConfig i d n t out v False) cu
   \<and> (\<forall>destUrl res orig final.
        destUrl = joinUrl (urlApi w) (v_destinationUrl config) (path cu)
        \<and> res = fst (fetchUrl destUrl \<lparr>timeout = Some (v_timeout config), retries = Some 1\<rparr>
                      (network w destUrl))
        \<and> falsy (error res)
        \<and> parseURL (urlApi w) destUrl = Some orig
        \<and> parseURL (urlApi w) (finalUrl res) = Some final
        \<and> pathname orig \<noteq> pathname final
        \<longrightarrow> (\<forall>st. redirectCheck (urlApi w) destUrl res st
                    = Inr (escalate (fst st),
                           snd st @ [\<lparr>issueType = Redirect,
                                      issueMessage = ''Redirected to: '' @ pathname final,
                                      details = [(''finalUrl'', [finalUrl res])]\<rparr>]))
            \<and> (\<exists>r. validateCrawled w config cu = Inr r
                    \<and> \<lparr>issueType = Redirect, issueMessage = ''Redirected to: '' @ pathname final,
                        details = [(''finalUrl'', [finalUrl res])]\<rparr> \<in> set (issues r)
                    \<and> status r \<noteq> StatusOk))"
proof (intro conjI)
  show "validateCrawled w (config\<lparr>redirectHandling := h\<rparr>) cu = validateCrawled w config cu"
    by (simp add: validateCrawled_def)
  show "validateCrawled w (validatorConfig i d n t out v True) cu
       = validateCrawled w (validatorConfig i d n t out v False) cu"
    by (simp add: validateCrawled_def validatorConfig_def)
next
  show "\<forall>destUrl res orig final.
        destUrl = joinUrl (urlApi w) (v_destinationUrl config) (path cu)
        \<and> res = fst (fetchUrl destUrl \<lparr>timeout = Some (v_timeout config), retries = Some 1\<rparr>
                      (network w destUrl))
        \<and> falsy (error res)
        \<and> parseURL (urlApi w) destUrl = Some orig
        \<and> parseURL (urlApi w) (finalUrl res) = Some final
        \<and> pathname orig \<noteq> pathname final
        \<longrightarrow> (\<forall>st. redirectCheck (urlApi w) destUrl res st
                    = Inr (escalate (fst st),
                           snd st @ [\<lparr>issueType = Redirect,
                                      issueMessage = ''Redirected to: '' @ pathname final,
                                      details = [(''finalUrl'', [finalUrl res])]\<rparr>]))
            \<and> (\<exists>r. validateCrawled w config cu = Inr r
                    \<and> \<lparr>issueType = Redirect, issueMessage = ''Redirected to: '' @ pathname final,
                        details = [(''finalUrl'', [finalUrl res])]\<rparr> \<in> set (issues r)
                    \<and> status r \<noteq> StatusOk)"
  proof (intro allI impI)
  fix destUrl res orig final
  assume h: "destUrl = joinUrl (urlApi w) (v_destinationUrl config) (path cu)
        \<and> res = fst (fetchUrl destUrl \<lparr>timeout = Some (v_timeout config), retries = Some 1\<rparr>
                      (network w destUrl))
        \<and> falsy (error res)
        \<and> parseURL (urlApi w) destUrl = Some orig
        \<and> parseURL (urlApi w) (finalUrl res) = Some final
        \<and> pathname orig \<noteq> pathname final"
  then have d: "destUrl = joinUrl (urlApi w) (v_destinationUrl config) (path cu)"
    and rs: "res = fst (fetchUrl destUrl \<lparr>timeout = Some (v_timeout config), retries = Some 1\<rparr>
                      (network w destUrl))"
    and noerr: "falsy (error res)"
    and po: "parseURL (urlApi w) destUrl = Some orig"
    and pf: "parseURL (urlApi w) (finalUrl res) = Some final"
    and pne: "pathname orig \<noteq> pathname final"
    by blast+
  from po pf pne have ne: "finalUrl res \<noteq> destUrl" by auto
  from noerr fetchUrl_no_error[of destUrl _ "network w destUrl"] obtain st tx ru ms
    where "res = responseResult destUrl st tx ru ms"
    unfolding rs by blast
  with ne have red: "wasRedirected res" by (simp add: responseResult_redirected)
  have fires: "\<And>st. redirectCheck (urlApi w) destUrl res st
                    = Inr (escalate (fst st),
                           snd st @ [\<lparr>issueType = Redirect,
                                      issueMessage = ''Redirected to: '' @ pathname final,
                                      details = [(''finalUrl'', [finalUrl res])]\<rparr>])"
    by (rule redirectCheck_fires[OF red po pf pne])
  let ?issue = "\<lparr>issueType = Redirect, issueMessage = ''Redirected to: '' @ pathname final,
                        details = [(''finalUrl'', [finalUrl res])]\<rparr>"
  define st2 where "st2 = serverErrorCheck res (notFoundCheck res (StatusOk, []))"
  define st3 where "st3 = (escalate (fst st2), snd st2 @ [?issue])"
  define st5 where "st5 = titleCheck (title cu) (extractTitle w (body res))
      (soft404Check res (extractBodyText w (body res)) (extractTitle w (body res)) st3)"
  have r: "validateCrawled w config cu
      = Inr \<lparr>sourcePath = path cu, sourceTitle = title cu, destinationUrl = destUrl,
             destinationStatusCode = Some (statusCode res),
             destinationTitle = extractTitle w (body res), status = fst st5, issues = snd st5,
             resultTimeMs = Some (elapsedMs w destUrl)\<rparr>"
    using noerr fires[of st2]
    unfolding validateCrawled_def validateUrl_def d[symmetric] Let_def rs[symmetric]
    by (simp add: st2_def st3_def st5_def)
  have "?issue \<in> set (snd st3)" by (simp add: st3_def)
  then have in5: "?issue \<in> set (snd st5)"
    unfolding st5_def by (intro titleCheck_keeps soft404Check_keeps)
  have "fst st3 = StatusOk \<longleftrightarrow> snd st3 = []" by (simp add: st3_def escalate_def)
  then have "fst st5 = StatusOk \<longleftrightarrow> snd st5 = []"
    unfolding st5_def by (intro titleCheck_inv soft404Check_inv)
  with in5 have "fst st5 \<noteq> StatusOk" by auto
  with in5 r have "\<exists>r. validateCrawled w config cu = Inr r
                    \<and> ?issue \<in> set (issues r) \<and> status r \<noteq> StatusOk"
    by simp
  with fires show "(\<forall>st. redirectCheck (urlApi w) destUrl res st
                    = Inr (escalate (fst st), snd st @ [?issue]))
            \<and> (\<exists>r. validateCrawled w config cu = Inr r
                    \<and> ?issue \<in> set (issues r) \<and> status r \<noteq> StatusOk)"
    by blast
  qed
qed

lemma join_x: "joinUrl plainApi ''https://new.test'' ''/x'' = ''https://new.test/x''"
  by code_simp

theorem validateUrl_ok_iff_no_issues_witness:
  "(\<exists>r. validateUrl plainWorld ''/x'' (Some ''Foo'') ''https://new.test'' 10000 = Inr r
        \<and> status r = StatusOk \<and> issues r = [])
   \<and> (\<exists>r. validateUrl deadWorld ''/x'' (Some ''Foo'') ''https://new.test'' 10000 = Inr r
        \<and> status r = StatusError \<and> length (issues r) = 1)"
proof -
  have f1: "fst (fetchUrl ''https://new.test/x'' \<lparr>timeout = Some 10000, retries = Some 1\<rparr>
              (network plainWorld ''https://new.test/x''))
      = responseResult ''https://new.test/x'' 204 ''page'' ''https://new.test/x'' 20"
    by (rule fetchUrl_first_response) (simp_all add: plainWorld_def retriesOf_def)
  have u1: "urlApi plainWorld = plainApi" and e1: "elapsedMs plainWorld ''https://new.test/x'' = 25"
    by (simp_all add: plainWorld_def)
  have u2: "urlApi deadWorld = plainApi" and e2: "elapsedMs deadWorld ''https://new.test/x'' = 25"
    by (simp_all add: deadWorld_def)
  have t1: "extractTitle plainWorld ''page'' = Some ''Foo - Bar''" by code_simp
  have m1: "titlesMatch (Some ''Foo'') (Some ''Foo - Bar'')" by code_simp
  have r1: "responseResult ''https://new.test/x'' 204 ''page'' ''https://new.test/x'' 20
      = \<lparr>statusCode = 204, body = ''page'', finalUrl = ''https://new.test/x'', wasRedirected = False,
         responseTimeMs = 20, error = None\<rparr>"
    by (simp add: responseResult_def)
  have v1: "validateUrl plainWorld ''/x'' (Some ''Foo'') ''https://new.test'' 10000
      = Inr \<lparr>sourcePath = ''/x'', sourceTitle = Some ''Foo'', destinationUrl = ''https://new.test/x'',
             destinationStatusCode = Some 204, destinationTitle = Some ''Foo - Bar'',
             status = StatusOk, issues = [], resultTimeMs = Some 25\<rparr>"
    unfolding validateUrl_def Let_def u1 join_x f1 r1
    by (simp add: falsy_def notFoundCheck_def serverErrorCheck_def isServerErrorStatus_def
        redirectCheck_def t1 soft404Check_def isSuccessStatus_def checkSoft404_def titleCheck_def m1 e1)
  have f2: "fetchUrl ''https://new.test/x'' \<lparr>timeout = Some 10000, retries = Some 1\<rparr>
              (network deadWorld ''https://new.test/x'')
      = (exhaustedResult ''https://new.test/x'' (Some (JsError ''TypeError'' ''fetch failed'')),
         backoffFrom 0 (nat (retriesOf \<lparr>timeout = Some 10000, retries = Some 1\<rparr>) + 1))"
    by (rule fetchUrl_exhausted) (simp_all add: deadWorld_def retriesOf_def alwaysRefused_def)
  have v2: "validateUrl deadWorld ''/x'' (Some ''Foo'') ''https://new.test'' 10000
      = Inr \<lparr>sourcePath = ''/x'', sourceTitle = Some ''Foo'', destinationUrl = ''https://new.test/x'',
             destinationStatusCode = None, destinationTitle = None,
             status = StatusError,
             issues = [\<lparr>issueType = ErrorIssue, issueMessage = ''fetch failed'', details = []\<rparr>],
             resultTimeMs = Some 25\<rparr>"
    unfolding validateUrl_def Let_def u2 join_x f2
    by (simp add: falsy_def exhaustedResult_def lastErrorMessage_def e2)
  from validateUrl_ok_iff_no_issues[OF v1] validateUrl_ok_iff_no_issues[OF v2]
  show ?thesis unfolding v1 v2 by simp
qed

theorem redirect_flag_ignored_witness:
  "validateCrawled movedWorld (exampleConfig True) fooPage
     = validateCrawled movedWorld (exampleConfig False) fooPage
   \<and> (\<exists>r. validateCrawled movedWorld (exampleConfig True) fooPage = Inr r
        \<and> \<lparr>issueType = Redirect, issueMessage = ''Redirected to: /moved'',
            details = [(''finalUrl'', [''https://new.test/moved''])]\<rparr> \<in> set (issues r)
        \<and> status r \<noteq> StatusOk)"
proof -
  let ?res = "responseResult ''https://new.test/x'' 403 ''page'' ''https://new.test/moved'' 20"
  let ?orig = "\<lparr>scheme = ''https'', authority = ''new.test'', hostname = ''new.test'',
      opaquePath = False, pathname = ''/x'', query = None, searchParams = [], fragment = None\<rparr>"
  let ?final = "\<lparr>scheme = ''https'', authority = ''new.test'', hostname = ''new.test'',
      opaquePath = False, pathname = ''/moved'', query = None, searchParams = [], fragment = None\<rparr>"
  have u: "urlApi movedWorld = plainApi" by (simp add: movedWorld_def)
  have c: "v_destinationUrl (exampleConfig False) = ''https://new.test''"
    "v_timeout (exampleConfig False) = 10000" "path fooPage = ''/x''"
    by (simp_all add: exampleConfig_def validatorConfig_def fooPage_def)
  have f: "fst (fetchUrl ''https://new.test/x'' \<lparr>timeout = Some 10000, retries = Some 1\<rparr>
              (network movedWorld ''https://new.test/x'')) = ?res"
    by (rule fetchUrl_first_response) (simp_all add: movedWorld_def retriesOf_def)
  have po: "parseURL plainApi ''https://new.test/x'' = Some ?orig" by code_simp
  have pf: "parseURL plainApi ''https://new.test/moved'' = Some ?final" by code_simp
  have fin: "finalUrl ?res = ''https://new.test/moved''" and ne: "falsy (error ?res)"
    by (simp_all add: responseResult_def falsy_def)
  have same: "validateCrawled movedWorld (exampleConfig True) fooPage
     = validateCrawled movedWorld (exampleConfig False) fooPage"
    using redirect_flag_ignored[where w = movedWorld and config = "exampleConfig False"
        and h = RedirectOk and cu = fooPage and i = "''crawl.json''" and d = "''https://new.test''"
        and n = 5 and t = 10000 and out = "''report.json''" and v = False]
    by (simp add: exampleConfig_def)
  have "\<exists>r. validateCrawled movedWorld (exampleConfig False) fooPage = Inr r
        \<and> \<lparr>issueType = Redirect, issueMessage = ''Redirected to: '' @ pathname ?final,
            details = [(''finalUrl'', [finalUrl ?res])]\<rparr> \<in> set (issues r)
        \<and> status r \<noteq> StatusOk"
    using redirect_flag_ignored[where w = movedWorld and config = "exampleConfig False"
        and h = RedirectOk and cu = fooPage and i = "''crawl.json''" and d = "''https://new.test''"
        and n = 5 and t = 10000 and out = "''report.json''" and v = False,
        THEN conjunct2, THEN conjunct2, rule_format,
        of "''https://new.test/x''" ?res ?orig ?final, THEN conjunct2]
      po pf ne
    by (simp add: u c join_x f fin)
  with same show ?thesis by (simp add: fin)
qed


end
